theory Spec2Isabelle
  imports Main "HOL-Library.Word" "HOL-Library.AList"
begin

section \<open>The in-memory account store (lib/db/mem.js)\<close>

text \<open>
  The module keeps nine JavaScript objects used as dictionaries and exposes the operations
  of the data-access contract as methods returning promises. The embedding is a state
  transformer per method: it takes the store and the arguments and returns the settled
  promise (\<open>Inl\<close> an error, \<open>Inr\<close> the value) together with the store afterwards. Access is
  serialized: a method runs to the settlement of its promise before the next one starts.

  Conventions of the embedding:
  \<^item> a Buffer is a list of bytes; \<open>toString('hex')\<close> is the function \<open>hex\<close>;
  \<^item> a string is a list of ASCII characters;
  \<^item> a dictionary is a map from its string keys. A lookup under the name of a property
    inherited from \<open>Object.prototype\<close> finds that property when the dictionary has none
    of its own under the name; \<open>entryTruthy\<close> says so where an index is tested for an
    entry (\<open>createAccount\<close>, \<open>accountExists\<close>). A hex string is never such a name, and
    the names under which unlock codes are stored are taken not to be;
  \<^item> an optional property is an \<open>option\<close>: \<open>None\<close> is a property that is absent
    (\<open>undefined\<close>) and, in the payloads of devices and session tokens, also one that is
    \<open>null\<close>; the module treats the two alike wherever it tests them;
  \<^item> JavaScript truthiness is written out: a Buffer is an object and always truthy, a
    string is truthy when it is not empty, \<open>undefined\<close> and \<open>null\<close> are falsy;
  \<^item> the properties of a payload have the types of the data model, and a property that the
    data model makes mandatory (the owner \<open>uid\<close> of a token, a time stamp) is present;
  \<^item> a payload is a new object, given by the values of its properties; \<open>createAccount\<close>,
    which stores the payload object itself, is also given the objects that the store
    holds already (\<open>Held\<close>);
  \<^item> an error that the module does not raise itself, the TypeError of reading a property
    of \<open>undefined\<close>, is a value of \<open>error\<close> as well.
\<close>

subsection \<open>Buffers and their hexadecimal rendering\<close>

type_synonym buffer = "8 word list"

definition hexdigit :: "nat \<Rightarrow> char" where
  "hexdigit n = ''0123456789abcdef'' ! n"

definition hex_byte :: "8 word \<Rightarrow> string" where
  "hex_byte b = [hexdigit (unat b div 16), hexdigit (unat b mod 16)]"

definition hex :: "buffer \<Rightarrow> string" where
  "hex bs = concat (map hex_byte bs)"

text \<open>\<open>String.prototype.toLowerCase\<close>: among the ASCII characters it changes the letters A to Z.\<close>

definition toLowerChar :: "char \<Rightarrow> char" where
  "toLowerChar c =
     (case map_of (zip ''ABCDEFGHIJKLMNOPQRSTUVWXYZ'' ''abcdefghijklmnopqrstuvwxyz'') c of
        Some l \<Rightarrow> l
      | None \<Rightarrow> c)"

definition toLowerCase :: "string \<Rightarrow> string" where
  "toLowerCase s = map toLowerChar s"

subsection \<open>Data model\<close>

datatype error = NotFound | Duplicate | IncorrectPassword | TypeError

text \<open>The callback public key arrives as a string or as a Buffer.\<close>

datatype keyval = KeyStr string | KeyBuf buffer

record device =
  dev_uid :: buffer
  dev_id :: buffer
  dev_sessionTokenId :: "buffer option"
  dev_name :: "string option"
  dev_type :: "string option"
  dev_createdAt :: "int option"
  dev_callbackURL :: "string option"
  dev_callbackPublicKey :: "keyval option"
  dev_uaBrowser :: "string option"
  dev_uaBrowserVersion :: "string option"
  dev_uaOS :: "string option"
  dev_uaOSVersion :: "string option"
  dev_uaDeviceType :: "string option"
  dev_lastAccessTime :: "int option"

record deviceInfo =
  di_sessionTokenId :: "buffer option"
  di_name :: "string option"
  di_type :: "string option"
  di_createdAt :: "int option"
  di_callbackURL :: "string option"
  di_callbackPublicKey :: "keyval option"

text \<open>
  An account object. \<open>verifyHash\<close> is optional because \<open>filterAccount\<close> returns a copy
  of the object without that property. \<open>devices\<close> is the per-account dictionary, kept in
  the order in which its keys were inserted: \<open>accountDevices\<close> lists it with
  \<open>Object.keys\<close>.
\<close>

record account =
  normalizedEmail :: string
  email :: string
  openId :: "string option"
  verifyHash :: "buffer option"
  authSalt :: buffer
  wrapWrapKb :: buffer
  verifierSetAt :: int
  verifierVersion :: int
  emailVerified :: int
  emailCode :: buffer
  acc_locale :: "string option"
  createdAt :: int
  lockedAt :: "int option"
  devices :: "(string \<times> device) list"

record sessionTokenRow =
  st_data :: buffer
  st_uid :: buffer
  st_createdAt :: int
  st_uaBrowser :: "string option"
  st_uaBrowserVersion :: "string option"
  st_uaOS :: "string option"
  st_uaOSVersion :: "string option"
  st_uaDeviceType :: "string option"
  st_lastAccessTime :: int
  st_deviceKey :: "string option"

record keyFetchTokenRow =
  kf_authKey :: buffer
  kf_uid :: buffer
  kf_keyBundle :: buffer
  kf_createdAt :: int

record passwordForgotTokenRow =
  pf_tokenData :: buffer
  pf_uid :: buffer
  pf_passCode :: buffer
  pf_tries :: int
  pf_createdAt :: int

record passwordChangeTokenRow =
  pc_tokenData :: buffer
  pc_uid :: buffer
  pc_createdAt :: int

record accountResetTokenRow =
  ar_tokenData :: buffer
  ar_uid :: buffer
  ar_createdAt :: int

record unlockCodeRow =
  uc_uid :: buffer
  uc_unlockCode :: buffer

text \<open>The module-level tables.\<close>

record store =
  accounts :: "string \<rightharpoonup> account"
  uidByNormalizedEmail :: "string \<rightharpoonup> string"
  uidByOpenId :: "string \<rightharpoonup> string"
  sessionTokens :: "string \<rightharpoonup> sessionTokenRow"
  keyFetchTokens :: "string \<rightharpoonup> keyFetchTokenRow"
  accountResetTokens :: "string \<rightharpoonup> accountResetTokenRow"
  passwordChangeTokens :: "string \<rightharpoonup> passwordChangeTokenRow"
  passwordForgotTokens :: "string \<rightharpoonup> passwordForgotTokenRow"
  accountUnlockCodes :: "string \<rightharpoonup> unlockCodeRow"

definition emptyStore :: store where
  "emptyStore =
     \<lparr>accounts = Map.empty, uidByNormalizedEmail = Map.empty, uidByOpenId = Map.empty,
      sessionTokens = Map.empty, keyFetchTokens = Map.empty,
      accountResetTokens = Map.empty, passwordChangeTokens = Map.empty,
      passwordForgotTokens = Map.empty, accountUnlockCodes = Map.empty\<rparr>"

subsection \<open>Truthiness and property keys\<close>

text \<open>Truthiness of an optional string (an index entry, an \<open>openId\<close>, a \<open>deviceKey\<close>).\<close>

definition truthy :: "string option \<Rightarrow> bool" where
  "truthy v = (case v of None \<Rightarrow> False | Some s \<Rightarrow> s \<noteq> [])"

text \<open>\<open>v || null\<close> on an optional string.\<close>

definition orNull :: "string option \<Rightarrow> string option" where
  "orNull v = (if truthy v then v else None)"

text \<open>
  The property key that an optional string selects: \<open>obj[undefined]\<close> is the property
  named \<open>undefined\<close>.
\<close>

definition propertyKey :: "string option \<Rightarrow> string" where
  "propertyKey v = (case v of None \<Rightarrow> ''undefined'' | Some s \<Rightarrow> s)"

text \<open>
  The names of the properties that every object inherits from \<open>Object.prototype\<close>. Each
  of them is a function or an object, hence truthy. \<open>entryTruthy\<close> is the test
  \<open>if (dict[k])\<close> on one of the two indices: it reads the dictionary's own property, or
  else the inherited one.
\<close>

definition inheritedNames :: "string list" where
  "inheritedNames =
     [''constructor'', ''hasOwnProperty'', ''isPrototypeOf'', ''propertyIsEnumerable'',
      ''toLocaleString'', ''toString'', ''valueOf'', ''__proto__'', ''__defineGetter__'',
      ''__defineSetter__'', ''__lookupGetter__'', ''__lookupSetter__'']"

definition entryTruthy :: "(string \<rightharpoonup> string) \<Rightarrow> string \<Rightarrow> bool" where
  "entryTruthy dict k = (case dict k of Some v \<Rightarrow> v \<noteq> [] | None \<Rightarrow> k \<in> set inheritedNames)"

subsection \<open>Account lookup\<close>

text \<open>
  \<open>getAccountByUid\<close> is called with a Buffer by the methods and with an entry of an
  index (a hex string, or \<open>undefined\<close> when the index has no such key) by the record
  lookups.
\<close>

datatype uidArg = Undefined | UidStr string | UidBuf buffer

definition uidFalsy :: "uidArg \<Rightarrow> bool" where
  "uidFalsy u = (case u of Undefined \<Rightarrow> True | UidStr s \<Rightarrow> s = [] | UidBuf b \<Rightarrow> False)"

definition uidHex :: "uidArg \<Rightarrow> string" where
  "uidHex u = (case u of Undefined \<Rightarrow> [] | UidStr s \<Rightarrow> s | UidBuf b \<Rightarrow> hex b)"

definition getAccountByUid :: "store \<Rightarrow> uidArg \<Rightarrow> error + account" where
  "getAccountByUid s uid =
     (if uidFalsy uid then Inl NotFound
      else case accounts s (uidHex uid) of
             Some a \<Rightarrow> Inr a
           | None \<Rightarrow> Inl NotFound)"

definition indexEntry :: "string option \<Rightarrow> uidArg" where
  "indexEntry v = (case v of None \<Rightarrow> Undefined | Some k \<Rightarrow> UidStr k)"

definition filterAccount :: "account \<Rightarrow> account" where
  "filterAccount a = a\<lparr>verifyHash := None\<rparr>"

subsection \<open>Creating accounts\<close>

text \<open>
  \<open>createAccount\<close> assigns to two properties of the payload object before any of its
  tests and, when it succeeds, stores that object itself, not a copy. A caller that has
  kept the object of an earlier call can hand it in again; the two assignments then change
  the stored account, also when the call is rejected. So the payload is either a new
  object, given by the values of its properties (\<open>Fresh\<close>), or the object that the store
  holds under an account key (\<open>Held\<close>). A held payload of which the store holds nothing
  is no object: the assignment to its property raises a TypeError.

  When a call with a held payload succeeds, the code has one object under two account
  keys, and a later change of the one account is a change of the other. The model stores
  a copy under the new key, and follows the code up to such a call. There is none in a
  store reached with account identifiers that are not empty: the call is rejected
  (lemma \<open>createAccount_Held_rejected\<close>).
\<close>

datatype payload = Fresh account | Held string

definition payloadObject :: "store \<Rightarrow> payload \<Rightarrow> account option" where
  "payloadObject s p = (case p of Fresh d \<Rightarrow> Some d | Held k \<Rightarrow> accounts s k)"

text \<open>The store after \<open>data.devices = {}\<close> and \<open>data.lockedAt = null\<close>.\<close>

definition resetPayload :: "store \<Rightarrow> payload \<Rightarrow> store" where
  "resetPayload s p =
     (case p of
        Fresh d \<Rightarrow> s
      | Held k \<Rightarrow>
          (case accounts s k of
             None \<Rightarrow> s
           | Some a \<Rightarrow> s\<lparr>accounts := (accounts s)(k \<mapsto> a\<lparr>devices := [], lockedAt := None\<rparr>)\<rparr>))"

definition createAccount :: "store \<Rightarrow> buffer \<Rightarrow> payload \<Rightarrow> (error + unit) \<times> store" where
  "createAccount s0 uid p =
     (case payloadObject s0 p of
        None \<Rightarrow> (Inl TypeError, s0)
      | Some data0 \<Rightarrow>
          (let uid' = hex uid;
               data = data0\<lparr>devices := [], lockedAt := None\<rparr>;
               s = resetPayload s0 p
           in if accounts s uid' \<noteq> None then (Inl Duplicate, s)
              else if entryTruthy (uidByNormalizedEmail s) (normalizedEmail data)
                then (Inl Duplicate, s)
              else if truthy (openId data) then
                (if entryTruthy (uidByOpenId s) (propertyKey (openId data))
                 then (Inl Duplicate, s)
                 else (Inr (),
                       s\<lparr>uidByOpenId := (uidByOpenId s)(propertyKey (openId data) \<mapsto> uid'),
                         accounts := (accounts s)(uid' \<mapsto> data),
                         uidByNormalizedEmail :=
                           (uidByNormalizedEmail s)(normalizedEmail data \<mapsto> uid')\<rparr>))
              else (Inr (),
                    s\<lparr>accounts := (accounts s)(uid' \<mapsto> data),
                      uidByNormalizedEmail :=
                        (uidByNormalizedEmail s)(normalizedEmail data \<mapsto> uid')\<rparr>)))"

subsection \<open>Reading accounts\<close>

text \<open>
  \<open>accountExists\<close> tests the index entry for truthiness. \<open>emailRecord\<close> and
  \<open>openIdRecord\<close> hand the entry to \<open>getAccountByUid\<close>; under the name of an inherited
  property the entry is a function or an object, whose rendering by \<open>toString\<close> is no
  key of \<open>accounts\<close>, so that the lookup ends in NotFound as it does for an absent key.
\<close>

definition accountExists :: "store \<Rightarrow> string \<Rightarrow> error + unit" where
  "accountExists s email0 =
     (if entryTruthy (uidByNormalizedEmail s) (toLowerCase email0) then Inr ()
      else Inl NotFound)"

record passwordHash =
  ph_verifyHash :: buffer

definition checkPassword :: "store \<Rightarrow> buffer \<Rightarrow> passwordHash \<Rightarrow> error + buffer" where
  "checkPassword s uid hash =
     (case getAccountByUid s (UidBuf uid) of
        Inl e \<Rightarrow> Inl IncorrectPassword
      | Inr a \<Rightarrow>
          (case verifyHash a of
             None \<Rightarrow> Inl TypeError
           | Some h \<Rightarrow>
               if hex h = hex (ph_verifyHash hash) then Inr uid
               else Inl IncorrectPassword))"

definition account :: "store \<Rightarrow> buffer \<Rightarrow> error + account" where
  "account s uid =
     (case getAccountByUid s (UidBuf uid) of
        Inl e \<Rightarrow> Inl e
      | Inr a \<Rightarrow> Inr (filterAccount a))"

definition emailRecord :: "store \<Rightarrow> string \<Rightarrow> error + account" where
  "emailRecord s email0 =
     (case getAccountByUid s (indexEntry (uidByNormalizedEmail s (toLowerCase email0))) of
        Inl e \<Rightarrow> Inl e
      | Inr a \<Rightarrow> Inr (filterAccount a))"

definition openIdRecord :: "store \<Rightarrow> string \<Rightarrow> error + account" where
  "openIdRecord s openId0 =
     (case getAccountByUid s (indexEntry (uidByOpenId s openId0)) of
        Inl e \<Rightarrow> Inl e
      | Inr a \<Rightarrow> Inr (filterAccount a))"

subsection \<open>Creating tokens\<close>

record sessionTokenPayload =
  sp_data :: buffer
  sp_uid :: buffer
  sp_createdAt :: int
  sp_uaBrowser :: "string option"
  sp_uaBrowserVersion :: "string option"
  sp_uaOS :: "string option"
  sp_uaOSVersion :: "string option"
  sp_uaDeviceType :: "string option"

definition createSessionToken ::
  "store \<Rightarrow> buffer \<Rightarrow> sessionTokenPayload \<Rightarrow> (error + unit) \<times> store" where
  "createSessionToken s tokenId sessionToken =
     (let tokenId' = hex tokenId
      in if sessionTokens s tokenId' \<noteq> None then (Inl Duplicate, s)
         else (Inr (),
               s\<lparr>sessionTokens := (sessionTokens s)(tokenId' \<mapsto>
                   \<lparr>st_data = sp_data sessionToken,
                    st_uid = sp_uid sessionToken,
                    st_createdAt = sp_createdAt sessionToken,
                    st_uaBrowser = sp_uaBrowser sessionToken,
                    st_uaBrowserVersion = sp_uaBrowserVersion sessionToken,
                    st_uaOS = sp_uaOS sessionToken,
                    st_uaOSVersion = sp_uaOSVersion sessionToken,
                    st_uaDeviceType = sp_uaDeviceType sessionToken,
                    st_lastAccessTime = sp_createdAt sessionToken,
                    st_deviceKey = None\<rparr>)\<rparr>))"

record keyFetchTokenPayload =
  kp_authKey :: buffer
  kp_uid :: buffer
  kp_keyBundle :: buffer
  kp_createdAt :: int

definition createKeyFetchToken ::
  "store \<Rightarrow> buffer \<Rightarrow> keyFetchTokenPayload \<Rightarrow> (error + unit) \<times> store" where
  "createKeyFetchToken s tokenId keyFetchToken =
     (let tokenId' = hex tokenId
      in if keyFetchTokens s tokenId' \<noteq> None then (Inl Duplicate, s)
         else (Inr (),
               s\<lparr>keyFetchTokens := (keyFetchTokens s)(tokenId' \<mapsto>
                   \<lparr>kf_authKey = kp_authKey keyFetchToken,
                    kf_uid = kp_uid keyFetchToken,
                    kf_keyBundle = kp_keyBundle keyFetchToken,
                    kf_createdAt = kp_createdAt keyFetchToken\<rparr>)\<rparr>))"

text \<open>
  \<open>deleteByUid\<close> scans a table and deletes every row whose owner, rendered in hex, is
  the given string. The owner of a row is a Buffer, hence truthy, so the scan does not
  reach its \<open>throw\<close>. The tables have rows of different shapes; the owner property is
  passed as a selector.
\<close>

definition deleteByUid :: "string \<Rightarrow> ('r \<Rightarrow> buffer) \<Rightarrow> (string \<rightharpoonup> 'r) \<Rightarrow> (string \<rightharpoonup> 'r)" where
  "deleteByUid uid owner collection =
     (\<lambda>key. case collection key of
              None \<Rightarrow> None
            | Some item \<Rightarrow> if hex (owner item) = uid then None else Some item)"

record passwordForgotTokenPayload =
  fp_data :: buffer
  fp_uid :: buffer
  fp_passCode :: buffer
  fp_tries :: int
  fp_createdAt :: int

definition createPasswordForgotToken ::
  "store \<Rightarrow> buffer \<Rightarrow> passwordForgotTokenPayload \<Rightarrow> (error + unit) \<times> store" where
  "createPasswordForgotToken s tokenId passwordForgotToken =
     (let tokenId' = hex tokenId
      in if passwordForgotTokens s tokenId' \<noteq> None then (Inl Duplicate, s)
         else (Inr (),
               s\<lparr>passwordForgotTokens :=
                   (deleteByUid (hex (fp_uid passwordForgotToken)) pf_uid
                      (passwordForgotTokens s))(tokenId' \<mapsto>
                   \<lparr>pf_tokenData = fp_data passwordForgotToken,
                    pf_uid = fp_uid passwordForgotToken,
                    pf_passCode = fp_passCode passwordForgotToken,
                    pf_tries = fp_tries passwordForgotToken,
                    pf_createdAt = fp_createdAt passwordForgotToken\<rparr>)\<rparr>))"

record passwordChangeTokenPayload =
  cp_data :: buffer
  cp_uid :: buffer
  cp_createdAt :: int

definition createPasswordChangeToken ::
  "store \<Rightarrow> buffer \<Rightarrow> passwordChangeTokenPayload \<Rightarrow> (error + unit) \<times> store" where
  "createPasswordChangeToken s tokenId passwordChangeToken =
     (let tokenId' = hex tokenId
      in if passwordChangeTokens s tokenId' \<noteq> None then (Inl Duplicate, s)
         else (Inr (),
               s\<lparr>passwordChangeTokens :=
                   (deleteByUid (hex (cp_uid passwordChangeToken)) pc_uid
                      (passwordChangeTokens s))(tokenId' \<mapsto>
                   \<lparr>pc_tokenData = cp_data passwordChangeToken,
                    pc_uid = cp_uid passwordChangeToken,
                    pc_createdAt = cp_createdAt passwordChangeToken\<rparr>)\<rparr>))"

record accountResetTokenPayload =
  rp_tokenId :: buffer
  rp_data :: buffer
  rp_uid :: buffer
  rp_createdAt :: int

definition createAccountResetToken ::
  "store \<Rightarrow> buffer \<Rightarrow> accountResetTokenPayload \<Rightarrow> (error + unit) \<times> store" where
  "createAccountResetToken s tokenId accountResetToken =
     (let tokenId' = hex tokenId
      in (Inr (),
          s\<lparr>accountResetTokens :=
              (deleteByUid (hex (rp_uid accountResetToken)) ar_uid
                 (accountResetTokens s))(tokenId' \<mapsto>
              \<lparr>ar_tokenData = rp_data accountResetToken,
               ar_uid = rp_uid accountResetToken,
               ar_createdAt = rp_createdAt accountResetToken\<rparr>)\<rparr>))"

subsection \<open>Devices\<close>

text \<open>
  \<open>DEVICE_FIELDS.forEach\<close>: a property that the payload leaves out (or sets to
  \<open>null\<close>) keeps the device's value, \<open>null\<close> on a new device; an empty string for the
  callback public key becomes 32 zero bytes.
\<close>

definition mergeField :: "'a option \<Rightarrow> 'a option \<Rightarrow> 'a option" where
  "mergeField old field = (case field of None \<Rightarrow> old | Some v \<Rightarrow> Some v)"

definition normalizeKey :: "keyval \<Rightarrow> keyval" where
  "normalizeKey field = (if field = KeyStr [] then KeyBuf (replicate 32 0) else field)"

definition mergeDeviceFields :: "device \<Rightarrow> deviceInfo \<Rightarrow> device" where
  "mergeDeviceFields device info =
     device\<lparr>dev_sessionTokenId := mergeField (dev_sessionTokenId device) (di_sessionTokenId info),
            dev_name := mergeField (dev_name device) (di_name info),
            dev_type := mergeField (dev_type device) (di_type info),
            dev_createdAt := mergeField (dev_createdAt device) (di_createdAt info),
            dev_callbackURL := mergeField (dev_callbackURL device) (di_callbackURL info),
            dev_callbackPublicKey :=
              mergeField (dev_callbackPublicKey device)
                (map_option normalizeKey (di_callbackPublicKey info))\<rparr>"

text \<open>\<open>SESSION_FIELDS.forEach\<close>: the device mirrors the session token's properties.\<close>

definition mirrorSessionFields :: "device \<Rightarrow> sessionTokenRow \<Rightarrow> device" where
  "mirrorSessionFields device session =
     device\<lparr>dev_uaBrowser := st_uaBrowser session,
            dev_uaBrowserVersion := st_uaBrowserVersion session,
            dev_uaOS := st_uaOS session,
            dev_uaOSVersion := st_uaOSVersion session,
            dev_uaDeviceType := st_uaDeviceType session,
            dev_lastAccessTime := Some (st_lastAccessTime session)\<rparr>"

definition sessionKeyOf :: "buffer option \<Rightarrow> string" where
  "sessionKeyOf v = (case v of None \<Rightarrow> [] | Some b \<Rightarrow> hex b)"

text \<open>
  \<open>updateDeviceRecord\<close> changes the device it is given and the session token that the
  payload names; it returns the device, here with the store. Its \<open>throw\<close> comes before
  any change.
\<close>

definition updateDeviceRecord ::
  "store \<Rightarrow> device \<Rightarrow> deviceInfo \<Rightarrow> string \<Rightarrow> error + device \<times> store" where
  "updateDeviceRecord s device info deviceKey =
     (let sessionKey = sessionKeyOf (di_sessionTokenId info);
          session = (if sessionKey \<noteq> [] then sessionTokens s sessionKey else None)
      in if (case session of
               None \<Rightarrow> False
             | Some t \<Rightarrow> truthy (st_deviceKey t) \<and> st_deviceKey t \<noteq> Some deviceKey)
         then Inl Duplicate
         else
           (let device1 = mergeDeviceFields device info
            in case session of
                 None \<Rightarrow> Inr (device1, s)
               | Some t \<Rightarrow>
                   Inr (mirrorSessionFields device1 t,
                        s\<lparr>sessionTokens :=
                            (sessionTokens s)(sessionKey \<mapsto> t\<lparr>st_deviceKey := Some deviceKey\<rparr>)\<rparr>)))"

definition newDevice :: "buffer \<Rightarrow> buffer \<Rightarrow> device" where
  "newDevice uid deviceId =
     \<lparr>dev_uid = uid, dev_id = deviceId, dev_sessionTokenId = None, dev_name = None,
      dev_type = None, dev_createdAt = None, dev_callbackURL = None,
      dev_callbackPublicKey = None, dev_uaBrowser = None, dev_uaBrowserVersion = None,
      dev_uaOS = None, dev_uaOSVersion = None, dev_uaDeviceType = None,
      dev_lastAccessTime = None\<rparr>"

text \<open>
  The methods below change the account object that \<open>getAccountByUid\<close> found; the model
  writes the changed account back under the key it was found at.
\<close>

definition putDevice :: "store \<Rightarrow> string \<Rightarrow> account \<Rightarrow> string \<Rightarrow> device \<Rightarrow> store" where
  "putDevice s uid' a deviceKey device =
     s\<lparr>accounts := (accounts s)(uid' \<mapsto> a\<lparr>devices := AList.update deviceKey device (devices a)\<rparr>)\<rparr>"

definition createDevice ::
  "store \<Rightarrow> buffer \<Rightarrow> buffer \<Rightarrow> deviceInfo \<Rightarrow> (error + unit) \<times> store" where
  "createDevice s uid deviceId deviceInfo =
     (case getAccountByUid s (UidBuf uid) of
        Inl e \<Rightarrow> (Inl e, s)
      | Inr a \<Rightarrow>
          (let deviceKey = hex deviceId
           in if map_of (devices a) deviceKey \<noteq> None then (Inl Duplicate, s)
              else case updateDeviceRecord s (newDevice uid deviceId) deviceInfo deviceKey of
                     Inl e \<Rightarrow> (Inl e, s)
                   | Inr (device, s') \<Rightarrow> (Inr (), putDevice s' (hex uid) a deviceKey device)))"

text \<open>
  \<open>updateDevice\<close> first deals with the session token the device holds: when the payload
  names another one, the old token's \<open>deviceKey\<close> is cleared; when the payload names
  none, the payload takes the device's.
\<close>

definition unlinkOld :: "store \<Rightarrow> device \<Rightarrow> deviceInfo \<Rightarrow> store \<times> deviceInfo" where
  "unlinkOld s device info =
     (case dev_sessionTokenId device of
        None \<Rightarrow> (s, info)
      | Some old \<Rightarrow>
          (case di_sessionTokenId info of
             None \<Rightarrow> (s, info\<lparr>di_sessionTokenId := Some old\<rparr>)
           | Some new \<Rightarrow>
               if hex old \<noteq> hex new then
                 (case sessionTokens s (hex old) of
                    None \<Rightarrow> (s, info)
                  | Some oldSession \<Rightarrow>
                      (s\<lparr>sessionTokens :=
                          (sessionTokens s)(hex old \<mapsto> oldSession\<lparr>st_deviceKey := None\<rparr>)\<rparr>,
                       info))
               else (s, info)))"

definition updateDevice ::
  "store \<Rightarrow> buffer \<Rightarrow> buffer \<Rightarrow> deviceInfo \<Rightarrow> (error + unit) \<times> store" where
  "updateDevice s uid deviceId deviceInfo =
     (case getAccountByUid s (UidBuf uid) of
        Inl e \<Rightarrow> (Inl e, s)
      | Inr a \<Rightarrow>
          (let deviceKey = hex deviceId
           in case map_of (devices a) deviceKey of
                None \<Rightarrow> (Inl NotFound, s)
              | Some device \<Rightarrow>
                  (case unlinkOld s device deviceInfo of
                     (s1, info) \<Rightarrow>
                       (case updateDeviceRecord s1 device info deviceKey of
                          Inl e \<Rightarrow> (Inl e, s1)
                        | Inr (device', s2) \<Rightarrow>
                            (Inr (), putDevice s2 (hex uid) a deviceKey device')))))"

subsection \<open>Deleting\<close>

definition deleteSessionToken :: "store \<Rightarrow> buffer \<Rightarrow> (error + unit) \<times> store" where
  "deleteSessionToken s tokenId =
     (let tokenId' = hex tokenId
      in if sessionTokens s tokenId' = None then (Inr (), s)
         else (Inr (), s\<lparr>sessionTokens := (sessionTokens s)(tokenId' := None)\<rparr>))"

definition deleteKeyFetchToken :: "store \<Rightarrow> buffer \<Rightarrow> (error + unit) \<times> store" where
  "deleteKeyFetchToken s tokenId =
     (Inr (), s\<lparr>keyFetchTokens := (keyFetchTokens s)(hex tokenId := None)\<rparr>)"

definition deleteAccountResetToken :: "store \<Rightarrow> buffer \<Rightarrow> (error + unit) \<times> store" where
  "deleteAccountResetToken s tokenId =
     (Inr (), s\<lparr>accountResetTokens := (accountResetTokens s)(hex tokenId := None)\<rparr>)"

definition deletePasswordForgotToken :: "store \<Rightarrow> buffer \<Rightarrow> (error + unit) \<times> store" where
  "deletePasswordForgotToken s tokenId =
     (Inr (), s\<lparr>passwordForgotTokens := (passwordForgotTokens s)(hex tokenId := None)\<rparr>)"

definition deletePasswordChangeToken :: "store \<Rightarrow> buffer \<Rightarrow> (error + unit) \<times> store" where
  "deletePasswordChangeToken s tokenId =
     (Inr (), s\<lparr>passwordChangeTokens := (passwordChangeTokens s)(hex tokenId := None)\<rparr>)"

definition deleteDevice :: "store \<Rightarrow> buffer \<Rightarrow> buffer \<Rightarrow> (error + unit) \<times> store" where
  "deleteDevice s uid deviceId =
     (let deviceKey = hex deviceId
      in case getAccountByUid s (UidBuf uid) of
           Inl e \<Rightarrow> (Inl e, s)
         | Inr a \<Rightarrow>
             (case map_of (devices a) deviceKey of
                None \<Rightarrow> (Inl NotFound, s)
              | Some device \<Rightarrow>
                  (let sessionKey = sessionKeyOf (dev_sessionTokenId device)
                   in (Inr (),
                       s\<lparr>sessionTokens := (sessionTokens s)(sessionKey := None),
                         accounts := (accounts s)(hex uid \<mapsto>
                           a\<lparr>devices := AList.delete deviceKey (devices a)\<rparr>)\<rparr>))))"

subsection \<open>Reading devices and tokens\<close>

text \<open>
  \<open>Object.keys\<close> lists first the keys that are array indices (the decimal numerals,
  written without a leading zero, of the numbers below \<open>2^32 - 1\<close>) in ascending order,
  then the other keys in the order of their insertion.
\<close>

definition digitOf :: "char \<Rightarrow> nat option" where
  "digitOf c = map_of (zip ''0123456789'' [0, 1, 2, 3, 4, 5, 6, 7, 8, 9]) c"

definition arrayIndex :: "string \<Rightarrow> nat option" where
  "arrayIndex k =
     (if k = [] \<or> \<not> list_all (\<lambda>c. digitOf c \<noteq> None) k \<or> (hd k = CHR ''0'' \<and> k \<noteq> ''0'')
      then None
      else (let n = foldl (\<lambda>n c. 10 * n + (case digitOf c of Some d \<Rightarrow> d | None \<Rightarrow> 0)) 0 k
            in if n < 4294967295 then Some n else None))"

definition objectKeys :: "(string \<times> 'a) list \<Rightarrow> (string \<times> 'a) list" where
  "objectKeys xs =
     sort_key (\<lambda>(k, v). case arrayIndex k of Some n \<Rightarrow> n | None \<Rightarrow> 0)
       (filter (\<lambda>(k, v). arrayIndex k \<noteq> None) xs)
     @ filter (\<lambda>(k, v). arrayIndex k = None) xs"

text \<open>
  \<open>accountDevices\<close> refreshes, in the stored device objects themselves, the properties
  mirrored from the session token that each device names, and returns those objects in
  the order of \<open>Object.keys\<close>. A missing account gives the empty list.
\<close>

definition refreshDevice :: "store \<Rightarrow> device \<Rightarrow> device" where
  "refreshDevice s device =
     (case sessionTokens s (sessionKeyOf (dev_sessionTokenId device)) of
        None \<Rightarrow> device
      | Some session \<Rightarrow> mirrorSessionFields device session)"

definition accountDevices :: "store \<Rightarrow> buffer \<Rightarrow> (error + device list) \<times> store" where
  "accountDevices s uid =
     (case getAccountByUid s (UidBuf uid) of
        Inl e \<Rightarrow> (Inr [], s)
      | Inr a \<Rightarrow>
          (let devices' = map (\<lambda>(deviceKey, device). (deviceKey, refreshDevice s device)) (devices a)
           in (Inr (map snd (objectKeys devices')),
               s\<lparr>accounts := (accounts s)(hex uid \<mapsto> a\<lparr>devices := devices'\<rparr>)\<rparr>)))"

record sessionTokenItem =
  si_tokenData :: buffer
  si_uid :: buffer
  si_createdAt :: int
  si_uaBrowser :: "string option"
  si_uaBrowserVersion :: "string option"
  si_uaOS :: "string option"
  si_uaOSVersion :: "string option"
  si_uaDeviceType :: "string option"
  si_lastAccessTime :: int
  si_emailVerified :: int
  si_email :: string
  si_emailCode :: buffer
  si_verifierSetAt :: int
  si_locale :: "string option"
  si_accountCreatedAt :: int

text \<open>
  The token reads look the owning account up and read its properties without a test:
  when the account is missing, reading a property of \<open>undefined\<close> raises a TypeError.
\<close>

definition sessionToken :: "store \<Rightarrow> buffer \<Rightarrow> error + sessionTokenItem" where
  "sessionToken s id0 =
     (let id' = hex id0
      in case sessionTokens s id' of
           None \<Rightarrow> Inl NotFound
         | Some t \<Rightarrow>
             (case accounts s (hex (st_uid t)) of
                None \<Rightarrow> Inl TypeError
              | Some a \<Rightarrow>
                  Inr \<lparr>si_tokenData = st_data t,
                       si_uid = st_uid t,
                       si_createdAt = st_createdAt t,
                       si_uaBrowser = orNull (st_uaBrowser t),
                       si_uaBrowserVersion = orNull (st_uaBrowserVersion t),
                       si_uaOS = orNull (st_uaOS t),
                       si_uaOSVersion = orNull (st_uaOSVersion t),
                       si_uaDeviceType = orNull (st_uaDeviceType t),
                       si_lastAccessTime = st_lastAccessTime t,
                       si_emailVerified = emailVerified a,
                       si_email = email a,
                       si_emailCode = emailCode a,
                       si_verifierSetAt = verifierSetAt a,
                       si_locale = acc_locale a,
                       si_accountCreatedAt = createdAt a\<rparr>))"

record keyFetchTokenItem =
  ki_authKey :: buffer
  ki_uid :: buffer
  ki_keyBundle :: buffer
  ki_createdAt :: int
  ki_emailVerified :: int
  ki_verifierSetAt :: int

definition keyFetchToken :: "store \<Rightarrow> buffer \<Rightarrow> error + keyFetchTokenItem" where
  "keyFetchToken s id0 =
     (case keyFetchTokens s (hex id0) of
        None \<Rightarrow> Inl NotFound
      | Some token \<Rightarrow>
          (case accounts s (hex (kf_uid token)) of
             None \<Rightarrow> Inl TypeError
           | Some a \<Rightarrow>
               Inr \<lparr>ki_authKey = kf_authKey token,
                    ki_uid = kf_uid token,
                    ki_keyBundle = kf_keyBundle token,
                    ki_createdAt = kf_createdAt token,
                    ki_emailVerified = emailVerified a,
                    ki_verifierSetAt = verifierSetAt a\<rparr>))"

record passwordForgotTokenItem =
  fi_tokenData :: buffer
  fi_uid :: buffer
  fi_passCode :: buffer
  fi_tries :: int
  fi_createdAt :: int
  fi_email :: string
  fi_verifierSetAt :: int

definition passwordForgotToken :: "store \<Rightarrow> buffer \<Rightarrow> error + passwordForgotTokenItem" where
  "passwordForgotToken s id0 =
     (case passwordForgotTokens s (hex id0) of
        None \<Rightarrow> Inl NotFound
      | Some token \<Rightarrow>
          (case accounts s (hex (pf_uid token)) of
             None \<Rightarrow> Inl TypeError
           | Some a \<Rightarrow>
               Inr \<lparr>fi_tokenData = pf_tokenData token,
                    fi_uid = pf_uid token,
                    fi_passCode = pf_passCode token,
                    fi_tries = pf_tries token,
                    fi_createdAt = pf_createdAt token,
                    fi_email = email a,
                    fi_verifierSetAt = verifierSetAt a\<rparr>))"

record passwordChangeTokenItem =
  ci_tokenData :: buffer
  ci_uid :: buffer
  ci_createdAt :: int
  ci_email :: string
  ci_verifierSetAt :: int

definition passwordChangeToken :: "store \<Rightarrow> buffer \<Rightarrow> error + passwordChangeTokenItem" where
  "passwordChangeToken s id0 =
     (case passwordChangeTokens s (hex id0) of
        None \<Rightarrow> Inl NotFound
      | Some token \<Rightarrow>
          (case accounts s (hex (pc_uid token)) of
             None \<Rightarrow> Inl TypeError
           | Some a \<Rightarrow>
               Inr \<lparr>ci_tokenData = pc_tokenData token,
                    ci_uid = pc_uid token,
                    ci_createdAt = pc_createdAt token,
                    ci_email = email a,
                    ci_verifierSetAt = verifierSetAt a\<rparr>))"

record accountResetTokenItem =
  ri_tokenData :: buffer
  ri_uid :: buffer
  ri_createdAt :: int
  ri_verifierSetAt :: int

definition accountResetToken :: "store \<Rightarrow> buffer \<Rightarrow> error + accountResetTokenItem" where
  "accountResetToken s id0 =
     (case accountResetTokens s (hex id0) of
        None \<Rightarrow> Inl NotFound
      | Some token \<Rightarrow>
          (case accounts s (hex (ar_uid token)) of
             None \<Rightarrow> Inl TypeError
           | Some a \<Rightarrow>
               Inr \<lparr>ri_tokenData = ar_tokenData token,
                    ri_uid = ar_uid token,
                    ri_createdAt = ar_createdAt token,
                    ri_verifierSetAt = verifierSetAt a\<rparr>))"

subsection \<open>Account-wide operations\<close>

definition verifyEmail :: "store \<Rightarrow> buffer \<Rightarrow> (error + unit) \<times> store" where
  "verifyEmail s uid =
     (case getAccountByUid s (UidBuf uid) of
        Inl e \<Rightarrow> (Inr (), s)
      | Inr a \<Rightarrow> (Inr (), s\<lparr>accounts := (accounts s)(hex uid \<mapsto> a\<lparr>emailVerified := 1\<rparr>)\<rparr>))"

text \<open>
  The unlock codes are stored under the account identifier itself, a Buffer, used as a
  property name: JavaScript turns it into a string with \<open>toString()\<close>, the UTF-8
  decoding of the bytes. That conversion belongs to the platform; the methods take it as
  the parameter \<open>utf8\<close>, and nothing is assumed about it.
\<close>

definition unlockAccount :: "(buffer \<Rightarrow> string) \<Rightarrow> store \<Rightarrow> buffer \<Rightarrow> (error + unit) \<times> store" where
  "unlockAccount utf8 s uid =
     (case getAccountByUid s (UidBuf uid) of
        Inl e \<Rightarrow> (Inr (), s)
      | Inr a \<Rightarrow>
          (Inr (),
           s\<lparr>accounts := (accounts s)(hex uid \<mapsto> a\<lparr>lockedAt := None\<rparr>),
             accountUnlockCodes := (accountUnlockCodes s)(utf8 uid := None)\<rparr>))"

record lockData =
  ld_lockedAt :: int
  ld_unlockCode :: buffer

definition lockAccount ::
  "(buffer \<Rightarrow> string) \<Rightarrow> store \<Rightarrow> buffer \<Rightarrow> lockData \<Rightarrow> (error + unit) \<times> store" where
  "lockAccount utf8 s uid data =
     (case getAccountByUid s (UidBuf uid) of
        Inl e \<Rightarrow> (Inl e, s)
      | Inr a \<Rightarrow>
          (Inr (),
           s\<lparr>accounts := (accounts s)(hex uid \<mapsto> a\<lparr>lockedAt := Some (ld_lockedAt data)\<rparr>),
             accountUnlockCodes := (accountUnlockCodes s)(utf8 uid \<mapsto>
               \<lparr>uc_uid = uid, uc_unlockCode = ld_unlockCode data\<rparr>)\<rparr>))"

definition unlockCode :: "(buffer \<Rightarrow> string) \<Rightarrow> store \<Rightarrow> buffer \<Rightarrow> error + unlockCodeRow" where
  "unlockCode utf8 s uid =
     (case accountUnlockCodes s (utf8 uid) of
        None \<Rightarrow> Inl NotFound
      | Some row \<Rightarrow> Inr row)"

text \<open>\<open>P.all\<close>: the list of the values, or the first rejection.\<close>

fun P_all :: "(error + 'a) list \<Rightarrow> error + 'a list" where
  "P_all [] = Inr []"
| "P_all (Inl e # ps) = Inl e"
| "P_all (Inr v # ps) = (case P_all ps of Inl e \<Rightarrow> Inl e | Inr vs \<Rightarrow> Inr (v # vs))"

text \<open>
  \<open>forgotPasswordVerified\<close> calls the four methods in the order of the array literal;
  the promise of \<open>P.all\<close> settles after all four have.
\<close>

definition forgotPasswordVerified ::
  "(buffer \<Rightarrow> string) \<Rightarrow> store \<Rightarrow> buffer \<Rightarrow> accountResetTokenPayload
     \<Rightarrow> (error + unit list) \<times> store" where
  "forgotPasswordVerified utf8 s tokenId resetToken =
     (case deletePasswordForgotToken s tokenId of
        (r1, s1) \<Rightarrow>
          (case createAccountResetToken s1 (rp_tokenId resetToken) resetToken of
             (r2, s2) \<Rightarrow>
               (case verifyEmail s2 (rp_uid resetToken) of
                  (r3, s3) \<Rightarrow>
                    (case unlockAccount utf8 s3 (rp_uid resetToken) of
                       (r4, s4) \<Rightarrow> (P_all [r1, r2, r3, r4], s4)))))"

text \<open>The cascade that \<open>resetAccount\<close> and \<open>deleteAccount\<close> share.\<close>

definition cascade :: "string \<Rightarrow> store \<Rightarrow> store" where
  "cascade uid' s =
     s\<lparr>sessionTokens := deleteByUid uid' st_uid (sessionTokens s),
       keyFetchTokens := deleteByUid uid' kf_uid (keyFetchTokens s),
       accountResetTokens := deleteByUid uid' ar_uid (accountResetTokens s),
       passwordChangeTokens := deleteByUid uid' pc_uid (passwordChangeTokens s),
       passwordForgotTokens := deleteByUid uid' pf_uid (passwordForgotTokens s),
       accountUnlockCodes := deleteByUid uid' uc_uid (accountUnlockCodes s)\<rparr>"

record resetData =
  rd_verifyHash :: buffer
  rd_authSalt :: buffer
  rd_wrapWrapKb :: buffer
  rd_verifierSetAt :: int
  rd_verifierVersion :: int

definition resetAccount :: "store \<Rightarrow> buffer \<Rightarrow> resetData \<Rightarrow> (error + unit list) \<times> store" where
  "resetAccount s uid data =
     (case getAccountByUid s (UidBuf uid) of
        Inl e \<Rightarrow> (Inl e, s)
      | Inr a \<Rightarrow>
          (let uid' = hex uid;
               s1 = cascade uid' s
           in (Inr [],
               s1\<lparr>accounts := (accounts s1)(uid' \<mapsto>
                   a\<lparr>verifyHash := Some (rd_verifyHash data),
                     authSalt := rd_authSalt data,
                     wrapWrapKb := rd_wrapWrapKb data,
                     verifierSetAt := rd_verifierSetAt data,
                     verifierVersion := rd_verifierVersion data,
                     devices := []\<rparr>)\<rparr>)))"

definition deleteAccount :: "store \<Rightarrow> buffer \<Rightarrow> (error + unit list) \<times> store" where
  "deleteAccount s uid =
     (case getAccountByUid s (UidBuf uid) of
        Inl e \<Rightarrow> (Inl e, s)
      | Inr a \<Rightarrow>
          (let uid' = hex uid;
               s1 = cascade uid' s
           in (Inr [],
               s1\<lparr>uidByNormalizedEmail := (uidByNormalizedEmail s1)(normalizedEmail a := None),
                  uidByOpenId := (uidByOpenId s1)(propertyKey (openId a) := None),
                  accounts := (accounts s1)(uid' := None)\<rparr>)))"

definition updateLocale :: "store \<Rightarrow> buffer \<Rightarrow> string option \<Rightarrow> (error + unit) \<times> store" where
  "updateLocale s uid locale0 =
     (case getAccountByUid s (UidBuf uid) of
        Inl e \<Rightarrow> (Inl e, s)
      | Inr a \<Rightarrow> (Inr (), s\<lparr>accounts := (accounts s)(hex uid \<mapsto> a\<lparr>acc_locale := locale0\<rparr>)\<rparr>))"

subsection \<open>Updating tokens\<close>

definition updatePasswordForgotToken :: "store \<Rightarrow> buffer \<Rightarrow> int \<Rightarrow> (error + unit) \<times> store" where
  "updatePasswordForgotToken s id0 tries =
     (case passwordForgotTokens s (hex id0) of
        None \<Rightarrow> (Inl NotFound, s)
      | Some token \<Rightarrow>
          (Inr (),
           s\<lparr>passwordForgotTokens :=
               (passwordForgotTokens s)(hex id0 \<mapsto> token\<lparr>pf_tries := tries\<rparr>)\<rparr>))"

record sessionTokenUpdate =
  su_uaBrowser :: "string option"
  su_uaBrowserVersion :: "string option"
  su_uaOS :: "string option"
  su_uaOSVersion :: "string option"
  su_uaDeviceType :: "string option"
  su_lastAccessTime :: int

definition updateSessionToken ::
  "store \<Rightarrow> buffer \<Rightarrow> sessionTokenUpdate \<Rightarrow> (error + unit) \<times> store" where
  "updateSessionToken s id0 data =
     (case sessionTokens s (hex id0) of
        None \<Rightarrow> (Inl NotFound, s)
      | Some token \<Rightarrow>
          (Inr (),
           s\<lparr>sessionTokens := (sessionTokens s)(hex id0 \<mapsto>
               token\<lparr>st_uaBrowser := su_uaBrowser data,
                     st_uaBrowserVersion := su_uaBrowserVersion data,
                     st_uaOS := su_uaOS data,
                     st_uaOSVersion := su_uaOSVersion data,
                     st_uaDeviceType := su_uaDeviceType data,
                     st_lastAccessTime := su_lastAccessTime data\<rparr>)\<rparr>))"

subsection \<open>Sequences of operations\<close>

text \<open>
  The methods that change the store, as one datatype, and the store after each. The
  reads that change nothing (\<open>accountExists\<close>, \<open>checkPassword\<close>, \<open>account\<close>,
  \<open>emailRecord\<close>, \<open>openIdRecord\<close>, \<open>sessions\<close>, the token reads, \<open>unlockCode\<close>, \<open>ping\<close>,
  \<open>close\<close>) are left out; \<open>accountDevices\<close> is in, since it writes to the devices.
\<close>

datatype operation =
    CreateAccount buffer payload
  | CreateSessionToken buffer sessionTokenPayload
  | CreateKeyFetchToken buffer keyFetchTokenPayload
  | CreatePasswordForgotToken buffer passwordForgotTokenPayload
  | CreatePasswordChangeToken buffer passwordChangeTokenPayload
  | CreateAccountResetToken buffer accountResetTokenPayload
  | CreateDevice buffer buffer deviceInfo
  | UpdateDevice buffer buffer deviceInfo
  | DeleteSessionToken buffer
  | DeleteKeyFetchToken buffer
  | DeleteAccountResetToken buffer
  | DeletePasswordForgotToken buffer
  | DeletePasswordChangeToken buffer
  | DeleteDevice buffer buffer
  | AccountDevices buffer
  | VerifyEmail buffer
  | ForgotPasswordVerified buffer accountResetTokenPayload
  | ResetAccount buffer resetData
  | DeleteAccount buffer
  | UpdateLocale buffer "string option"
  | LockAccount buffer lockData
  | UnlockAccount buffer
  | UpdatePasswordForgotToken buffer int
  | UpdateSessionToken buffer sessionTokenUpdate

fun perform :: "(buffer \<Rightarrow> string) \<Rightarrow> store \<Rightarrow> operation \<Rightarrow> store" where
  "perform utf8 s (CreateAccount uid p) = snd (createAccount s uid p)"
| "perform utf8 s (CreateSessionToken tokenId p) = snd (createSessionToken s tokenId p)"
| "perform utf8 s (CreateKeyFetchToken tokenId p) = snd (createKeyFetchToken s tokenId p)"
| "perform utf8 s (CreatePasswordForgotToken tokenId p) = snd (createPasswordForgotToken s tokenId p)"
| "perform utf8 s (CreatePasswordChangeToken tokenId p) = snd (createPasswordChangeToken s tokenId p)"
| "perform utf8 s (CreateAccountResetToken tokenId p) = snd (createAccountResetToken s tokenId p)"
| "perform utf8 s (CreateDevice uid deviceId info) = snd (createDevice s uid deviceId info)"
| "perform utf8 s (UpdateDevice uid deviceId info) = snd (updateDevice s uid deviceId info)"
| "perform utf8 s (DeleteSessionToken tokenId) = snd (deleteSessionToken s tokenId)"
| "perform utf8 s (DeleteKeyFetchToken tokenId) = snd (deleteKeyFetchToken s tokenId)"
| "perform utf8 s (DeleteAccountResetToken tokenId) = snd (deleteAccountResetToken s tokenId)"
| "perform utf8 s (DeletePasswordForgotToken tokenId) = snd (deletePasswordForgotToken s tokenId)"
| "perform utf8 s (DeletePasswordChangeToken tokenId) = snd (deletePasswordChangeToken s tokenId)"
| "perform utf8 s (DeleteDevice uid deviceId) = snd (deleteDevice s uid deviceId)"
| "perform utf8 s (AccountDevices uid) = snd (accountDevices s uid)"
| "perform utf8 s (VerifyEmail uid) = snd (verifyEmail s uid)"
| "perform utf8 s (ForgotPasswordVerified tokenId p) = snd (forgotPasswordVerified utf8 s tokenId p)"
| "perform utf8 s (ResetAccount uid d) = snd (resetAccount s uid d)"
| "perform utf8 s (DeleteAccount uid) = snd (deleteAccount s uid)"
| "perform utf8 s (UpdateLocale uid l) = snd (updateLocale s uid l)"
| "perform utf8 s (LockAccount uid d) = snd (lockAccount utf8 s uid d)"
| "perform utf8 s (UnlockAccount uid) = snd (unlockAccount utf8 s uid)"
| "perform utf8 s (UpdatePasswordForgotToken tokenId n) = snd (updatePasswordForgotToken s tokenId n)"
| "perform utf8 s (UpdateSessionToken tokenId d) = snd (updateSessionToken s tokenId d)"

text \<open>
  The stores that sequences of operations reach from the empty store, when each
  operation is one that \<open>allowed\<close> admits in the store it is applied to.
\<close>

inductive reachable :: "(buffer \<Rightarrow> string) \<Rightarrow> (store \<Rightarrow> operation \<Rightarrow> bool) \<Rightarrow> store \<Rightarrow> bool"
  for utf8 :: "buffer \<Rightarrow> string" and allowed :: "store \<Rightarrow> operation \<Rightarrow> bool" where
  initial: "reachable utf8 allowed emptyStore"
| step: "reachable utf8 allowed s \<Longrightarrow> allowed s op \<Longrightarrow> reachable utf8 allowed (perform utf8 s op)"

text \<open>The store after a list of operations, performed from left to right.\<close>

definition performAll :: "(buffer \<Rightarrow> string) \<Rightarrow> store \<Rightarrow> operation list \<Rightarrow> store" where
  "performAll utf8 s ops = foldl (perform utf8) s ops"

subsection \<open>Predicates of the statements\<close>

text \<open>At most one row of a table for each owner.\<close>

definition onePerAccount :: "('r \<Rightarrow> buffer) \<Rightarrow> (string \<rightharpoonup> 'r) \<Rightarrow> bool" where
  "onePerAccount owner collection =
     (\<forall>k1 k2 r1 r2. collection k1 = Some r1 \<and> collection k2 = Some r2 \<and> owner r1 = owner r2
        \<longrightarrow> k1 = k2)"







text \<open>
  \<open>createAccount\<close> indexes the \<open>normalizedEmail\<close> of the payload as it is given; the
  case folding is the caller's, the function \<open>lower\<close> below. \<open>foldedPayload\<close> admits a
  \<open>createAccount\<close> whose payload has, as the data model says, the case-folded \<open>email\<close>
  for its \<open>normalizedEmail\<close>, and every other operation.
\<close>

fun foldedPayload :: "(string \<Rightarrow> string) \<Rightarrow> store \<Rightarrow> operation \<Rightarrow> bool" where
  "foldedPayload lower s (CreateAccount uid p) =
     (case payloadObject s p of
        None \<Rightarrow> True
      | Some d \<Rightarrow> normalizedEmail d = lower (email d))"
| "foldedPayload lower s other = True"

text \<open>
  The only operation that removes an entry of the index of normalized emails is the
  \<open>deleteAccount\<close> of an account with that normalized email. \<open>emailKept\<close> says of a
  list of operations, performed from a store, that none of them is one.
\<close>

fun deletesEmail :: "string \<Rightarrow> store \<Rightarrow> operation \<Rightarrow> bool" where
  "deletesEmail e s (DeleteAccount uid) =
     (case accounts s (hex uid) of
        None \<Rightarrow> False
      | Some a \<Rightarrow> normalizedEmail a = e)"
| "deletesEmail e s other = False"

fun emailKept :: "(buffer \<Rightarrow> string) \<Rightarrow> string \<Rightarrow> store \<Rightarrow> operation list \<Rightarrow> bool" where
  "emailKept utf8 e s [] = True"
| "emailKept utf8 e s (op # ops) =
     (\<not> deletesEmail e s op \<and> emailKept utf8 e (perform utf8 s op) ops)"

text \<open>
  Every account is indexed by its normalized email, under its own key, which is not
  empty. \<open>nonEmptyId\<close> admits a \<open>createAccount\<close> whose account identifier is not
  empty, and every other operation.
\<close>

definition indexed :: "store \<Rightarrow> bool" where
  "indexed s =
     (\<forall>k a. accounts s k = Some a \<longrightarrow>
        uidByNormalizedEmail s (normalizedEmail a) = Some k \<and> k \<noteq> [])"

fun nonEmptyId :: "store \<Rightarrow> operation \<Rightarrow> bool" where
  "nonEmptyId s (CreateAccount uid p) = (uid \<noteq> [])"
| "nonEmptyId s other = True"

subsection \<open>Concrete stores\<close>

text \<open>Accounts, tokens, devices and stores at which the theorems are instantiated.\<close>

definition uidA :: buffer where
  "uidA = [0xA1, 0x01]"

definition uidB :: buffer where
  "uidB = [0xB2, 0x02]"

definition dataA :: account where
  "dataA =
     \<lparr>normalizedEmail = ''ann@example.com'', email = ''Ann@Example.com'', openId = None,
      verifyHash = Some [1, 2, 3], authSalt = [4], wrapWrapKb = [5], verifierSetAt = 10,
      verifierVersion = 1, emailVerified = 0, emailCode = [6], acc_locale = Some ''en'',
      createdAt = 100, lockedAt = None, devices = []\<rparr>"

definition storeA :: store where
  "storeA = snd (createAccount emptyStore uidA (Fresh dataA))"

definition dataB :: account where
  "dataB =
     dataA\<lparr>normalizedEmail := ''bob@example.com'', email := ''bob@example.com'',
           openId := Some ''https://id.example.com/bob'', verifyHash := Some [7, 7]\<rparr>"

definition storeAB :: store where
  "storeAB = snd (createAccount storeA uidB (Fresh dataB))"

text \<open>A payload that is not of the data model: its \<open>normalizedEmail\<close> is not case-folded.\<close>

definition dataUpper :: account where
  "dataUpper = dataA\<lparr>normalizedEmail := ''Ann@Example.com''\<rparr>"

text \<open>A second payload for the same address, written in another case.\<close>

definition dataA2 :: account where
  "dataA2 = dataA\<lparr>email := ''ANN@example.COM'', emailCode := [9]\<rparr>"

definition tokS :: buffer where
  "tokS = [0x51, 0x01]"

definition sessionS :: sessionTokenPayload where
  "sessionS =
     \<lparr>sp_data = [0xDD], sp_uid = uidA, sp_createdAt = 1000, sp_uaBrowser = Some ''Firefox'',
      sp_uaBrowserVersion = Some ''41'', sp_uaOS = Some ''Linux'', sp_uaOSVersion = Some ''4.2'',
      sp_uaDeviceType = Some ''''\<rparr>"

definition rowS :: sessionTokenRow where
  "rowS =
     \<lparr>st_data = [0xDD], st_uid = uidA, st_createdAt = 1000, st_uaBrowser = Some ''Firefox'',
      st_uaBrowserVersion = Some ''41'', st_uaOS = Some ''Linux'', st_uaOSVersion = Some ''4.2'',
      st_uaDeviceType = Some '''', st_lastAccessTime = 1000, st_deviceKey = None\<rparr>"

definition storeAS :: store where
  "storeAS = snd (createSessionToken storeA tokS sessionS)"

definition tokF1 :: buffer where
  "tokF1 = [0xF1]"

definition tokF2 :: buffer where
  "tokF2 = [0xF2]"

definition forgotF :: passwordForgotTokenPayload where
  "forgotF = \<lparr>fp_data = [1], fp_uid = uidA, fp_passCode = [2], fp_tries = 3, fp_createdAt = 2000\<rparr>"

definition storeAF :: store where
  "storeAF = snd (createPasswordForgotToken storeA tokF1 forgotF)"

definition devD :: buffer where
  "devD = [0xD0, 0x01]"

definition infoD :: deviceInfo where
  "infoD =
     \<lparr>di_sessionTokenId = Some tokS, di_name = Some ''phone'', di_type = Some ''mobile'',
      di_createdAt = Some 1001, di_callbackURL = None,
      di_callbackPublicKey = Some (KeyStr '''')\<rparr>"

definition deviceD :: device where
  "deviceD =
     \<lparr>dev_uid = uidA, dev_id = devD, dev_sessionTokenId = Some tokS, dev_name = Some ''phone'',
      dev_type = Some ''mobile'', dev_createdAt = Some 1001, dev_callbackURL = None,
      dev_callbackPublicKey = Some (KeyBuf (replicate 32 0)), dev_uaBrowser = Some ''Firefox'',
      dev_uaBrowserVersion = Some ''41'', dev_uaOS = Some ''Linux'',
      dev_uaOSVersion = Some ''4.2'', dev_uaDeviceType = Some '''',
      dev_lastAccessTime = Some 1000\<rparr>"

definition storeASD :: store where
  "storeASD = snd (createDevice storeAS uidA devD infoD)"

text \<open>The store later on, after the account's email has been verified.\<close>

definition storeASDV :: store where
  "storeASDV = snd (verifyEmail storeASD uidA)"

text \<open>A sample of the platform's conversion of a Buffer to a property name.\<close>

definition bytesAsChars :: "buffer \<Rightarrow> string" where
  "bytesAsChars b = map (\<lambda>w. char_of (unat w)) b"

definition lockL :: lockData where
  "lockL = \<lparr>ld_lockedAt = 3000, ld_unlockCode = [0xCC]\<rparr>"

definition storeAFL :: store where
  "storeAFL = snd (lockAccount bytesAsChars storeAF uidA lockL)"

definition tokR :: buffer where
  "tokR = [0xE1]"

definition resetR :: accountResetTokenPayload where
  "resetR = \<lparr>rp_tokenId = tokR, rp_data = [8], rp_uid = uidA, rp_createdAt = 4000\<rparr>"

definition dataU :: account where
  "dataU = dataB\<lparr>openId := Some ''undefined''\<rparr>"

definition storeUA :: store where
  "storeUA =
     snd (createAccount (snd (createAccount emptyStore uidB (Fresh dataU))) uidA (Fresh dataA))"














section \<open>Properties\<close>

subsection \<open>The hexadecimal rendering is injective\<close>

lemma hexdigit_inj: "m < 16 \<Longrightarrow> n < 16 \<Longrightarrow> hexdigit m = hexdigit n \<Longrightarrow> m = n"
proof -
  assume m: "m < 16" and n: "n < 16" and e: "hexdigit m = hexdigit n"
  have d: "distinct ''0123456789abcdef''" by simp
  have l: "length ''0123456789abcdef'' = 16" by simp
  from e have "''0123456789abcdef'' ! m = ''0123456789abcdef'' ! n"
    by (simp add: hexdigit_def)
  with d m n l show "m = n"
    by (metis nth_eq_iff_index_eq)
qed

lemma hex_byte_inj: "hex_byte b = hex_byte c \<Longrightarrow> b = c"
proof -
  assume e: "hex_byte b = hex_byte c"
  have ub: "unat b < 256" using unsigned_less [of b, where ?'a = nat] by simp
  have uc: "unat c < 256" using unsigned_less [of c, where ?'a = nat] by simp
  from e have h1: "hexdigit (unat b div 16) = hexdigit (unat c div 16)"
    and h2: "hexdigit (unat b mod 16) = hexdigit (unat c mod 16)"
    by (simp_all add: hex_byte_def)
  have "unat b div 16 = unat c div 16"
    using h1 ub uc by (intro hexdigit_inj) auto
  moreover have "unat b mod 16 = unat c mod 16"
    using h2 by (intro hexdigit_inj) auto
  ultimately have "unat b = unat c"
    by (metis div_mult_mod_eq)
  then show "b = c" by (simp add: word_unat_eq_iff)
qed

lemma hex_inj: "hex bs = hex cs \<Longrightarrow> bs = cs"
proof (induction bs arbitrary: cs)
  case Nil
  then show ?case by (cases cs) (simp_all add: hex_def hex_byte_def)
next
  case (Cons b bs)
  show ?case
  proof (cases cs)
    case Nil
    with Cons.prems show ?thesis by (simp add: hex_def hex_byte_def)
  next
    case (Cons c cs')
    with Cons.prems have e: "hex_byte b @ hex bs = hex_byte c @ hex cs'"
      by (simp add: hex_def)
    have "length (hex_byte b) = length (hex_byte c)" by (simp add: hex_byte_def)
    with e have "hex_byte b = hex_byte c" and "hex bs = hex cs'" by simp_all
    with Cons.IH Cons show ?thesis by (simp add: hex_byte_inj)
  qed
qed

lemma hex_eq_iff: "hex bs = hex cs \<longleftrightarrow> bs = cs"
  using hex_inj by blast

lemma hex_Nil_iff: "hex bs = [] \<longleftrightarrow> bs = []"
  by (cases bs) (simp_all add: hex_def hex_byte_def)

subsection \<open>Lookups and the cascade\<close>

lemma getAccountByUid_Buf:
  "getAccountByUid s (UidBuf uid) = (case accounts s (hex uid) of None \<Rightarrow> Inl NotFound | Some a \<Rightarrow> Inr a)"
  by (simp add: getAccountByUid_def uidFalsy_def uidHex_def)

lemma deleteByUid_owner:
  "deleteByUid (hex u) owner collection k = Some row \<Longrightarrow> owner row \<noteq> u"
  by (auto simp: deleteByUid_def split: option.splits if_splits)

lemma deleteByUid_other:
  "collection k = Some row \<Longrightarrow> owner row \<noteq> u \<Longrightarrow>
     deleteByUid (hex u) owner collection k = Some row"
  by (simp add: deleteByUid_def hex_eq_iff)

lemma deleteByUid_Some:
  "deleteByUid (hex u) owner collection k = Some row \<longleftrightarrow>
     collection k = Some row \<and> owner row \<noteq> u"
  by (auto simp: deleteByUid_def hex_eq_iff split: option.splits)

lemma objectKeys_set [simp]: "set (objectKeys xs) = set xs"
  by (auto simp: objectKeys_def)

lemma reachable_step:
  "reachable utf8 allowed s \<Longrightarrow> allowed s op \<Longrightarrow> s' = perform utf8 s op \<Longrightarrow>
     reachable utf8 allowed s'"
  by (simp add: reachable.step)


subsection \<open>The concrete stores\<close>

lemma uidA_neq_uidB: "uidA \<noteq> uidB" "uidB \<noteq> uidA"
  by (simp_all add: uidA_def uidB_def)

lemma hex_uid_nonempty: "hex uidA \<noteq> []" "hex uidB \<noteq> []"
  by (simp_all add: hex_Nil_iff uidA_def uidB_def)



lemma storeA_eq:
  "storeA = emptyStore\<lparr>accounts := [hex uidA \<mapsto> dataA],
                        uidByNormalizedEmail := [''ann@example.com'' \<mapsto> hex uidA]\<rparr>"
  by (simp add: storeA_def createAccount_def payloadObject_def resetPayload_def entryTruthy_def
      inheritedNames_def emptyStore_def truthy_def dataA_def Let_def)

lemma storeA_accounts: "accounts storeA (hex uidA) = Some dataA"
  by (simp add: storeA_eq)

lemma storeAB_eq:
  "storeAB =
     emptyStore\<lparr>accounts := [hex uidA \<mapsto> dataA, hex uidB \<mapsto> dataB],
       uidByNormalizedEmail :=
         [''ann@example.com'' \<mapsto> hex uidA, ''bob@example.com'' \<mapsto> hex uidB],
       uidByOpenId := [''https://id.example.com/bob'' \<mapsto> hex uidB]\<rparr>"
  by (simp add: storeAB_def storeA_eq createAccount_def payloadObject_def resetPayload_def
      entryTruthy_def inheritedNames_def emptyStore_def truthy_def dataA_def
      dataB_def Let_def hex_eq_iff uidA_neq_uidB propertyKey_def)

lemma storeAS_eq: "storeAS = storeA\<lparr>sessionTokens := [hex tokS \<mapsto> rowS]\<rparr>"
  by (simp add: storeAS_def createSessionToken_def storeA_eq emptyStore_def sessionS_def rowS_def Let_def)

lemma storeAF_eq:
  "storeAF = storeA\<lparr>passwordForgotTokens := [hex tokF1 \<mapsto>
      \<lparr>pf_tokenData = [1], pf_uid = uidA, pf_passCode = [2], pf_tries = 3, pf_createdAt = 2000\<rparr>]\<rparr>"
  by (simp add: storeAF_def createPasswordForgotToken_def storeA_eq emptyStore_def forgotF_def
      Let_def deleteByUid_def fun_eq_iff)

lemma storeASD_eq:
  "storeASD = storeA\<lparr>sessionTokens := [hex tokS \<mapsto> rowS\<lparr>st_deviceKey := Some (hex devD)\<rparr>],
      accounts := [hex uidA \<mapsto> dataA\<lparr>devices := [(hex devD, deviceD)]\<rparr>]\<rparr>"
  by (simp add: storeASD_def storeAS_eq storeA_eq createDevice_def getAccountByUid_def uidFalsy_def
    uidHex_def emptyStore_def dataA_def updateDeviceRecord_def infoD_def sessionKeyOf_def Let_def
    hex_Nil_iff tokS_def rowS_def truthy_def mergeDeviceFields_def newDevice_def mergeField_def
    normalizeKey_def mirrorSessionFields_def putDevice_def deviceD_def)

lemma storeASDV_eq:
  "storeASDV = storeASD\<lparr>accounts :=
      [hex uidA \<mapsto> dataA\<lparr>devices := [(hex devD, deviceD)], emailVerified := 1\<rparr>]\<rparr>"
  by (simp add: storeASDV_def verifyEmail_def getAccountByUid_def uidFalsy_def uidHex_def
      storeASD_eq)


lemma storeAFL_eq:
  "storeAFL = storeAF\<lparr>accounts := [hex uidA \<mapsto> dataA\<lparr>lockedAt := Some 3000\<rparr>],
      accountUnlockCodes := [bytesAsChars uidA \<mapsto> \<lparr>uc_uid = uidA, uc_unlockCode = [0xCC]\<rparr>]\<rparr>"
  by (simp add: storeAFL_def lockAccount_def storeAF_eq storeA_eq emptyStore_def getAccountByUid_def
      uidFalsy_def uidHex_def lockL_def)

lemma storeUA_eq:
  "storeUA =
     emptyStore\<lparr>accounts := [hex uidB \<mapsto> dataU, hex uidA \<mapsto> dataA],
       uidByNormalizedEmail :=
         [''bob@example.com'' \<mapsto> hex uidB, ''ann@example.com'' \<mapsto> hex uidA],
       uidByOpenId := [''undefined'' \<mapsto> hex uidB]\<rparr>"
  by (simp add: storeUA_def createAccount_def payloadObject_def resetPayload_def
      entryTruthy_def inheritedNames_def emptyStore_def truthy_def dataA_def
      dataB_def dataU_def Let_def hex_eq_iff uidA_neq_uidB propertyKey_def)

subsection \<open>Checking a password\<close>

text \<open>
  C3. \<open>checkPassword\<close> rejects with IncorrectPassword when no account has the uid and
  when the account's stored verify hash differs from the supplied one, never rejects with
  NotFound, and resolves, with the uid, exactly when the account exists and the stored
  hash equals the supplied one byte for byte.
\<close>

theorem checkPassword_spec:
  "(accounts s (hex uid) = None \<longrightarrow> checkPassword s uid hash = Inl IncorrectPassword) \<and>
   (\<forall>a h. accounts s (hex uid) = Some a \<and> verifyHash a = Some h \<and> h \<noteq> ph_verifyHash hash
      \<longrightarrow> checkPassword s uid hash = Inl IncorrectPassword) \<and>
   checkPassword s uid hash \<noteq> Inl NotFound \<and>
   (\<forall>v. checkPassword s uid hash = Inr v \<longleftrightarrow>
      v = uid \<and>
      (\<exists>a. accounts s (hex uid) = Some a \<and> verifyHash a = Some (ph_verifyHash hash)))"
  by (auto simp: checkPassword_def getAccountByUid_def uidFalsy_def uidHex_def hex_eq_iff
      split: option.splits sum.splits)

theorem checkPassword_spec_witness:
  "accounts emptyStore (hex uidA) = None \<and>
   checkPassword emptyStore uidA \<lparr>ph_verifyHash = [1, 2, 3]\<rparr> = Inl IncorrectPassword \<and>
   accounts storeA (hex uidA) = Some dataA \<and> verifyHash dataA = Some [1, 2, 3] \<and>
   checkPassword storeA uidA \<lparr>ph_verifyHash = [9]\<rparr> = Inl IncorrectPassword \<and>
   checkPassword storeA uidA \<lparr>ph_verifyHash = [9]\<rparr> \<noteq> Inl NotFound \<and>
   checkPassword storeA uidA \<lparr>ph_verifyHash = [1, 2, 3]\<rparr> = Inr uidA"
proof -
  have absent: "accounts emptyStore (hex uidA) = None"
    by (simp add: emptyStore_def)
  have hash: "verifyHash dataA = Some [1, 2, 3]"
    by (simp add: dataA_def)
  from absent checkPassword_spec [of emptyStore uidA "\<lparr>ph_verifyHash = [1, 2, 3]\<rparr>"]
  have 1: "checkPassword emptyStore uidA \<lparr>ph_verifyHash = [1, 2, 3]\<rparr> = Inl IncorrectPassword"
    by blast
  from storeA_accounts hash checkPassword_spec [of storeA uidA "\<lparr>ph_verifyHash = [9]\<rparr>"]
  have 2: "checkPassword storeA uidA \<lparr>ph_verifyHash = [9]\<rparr> = Inl IncorrectPassword"
    and 3: "checkPassword storeA uidA \<lparr>ph_verifyHash = [9]\<rparr> \<noteq> Inl NotFound"
    by simp_all
  from storeA_accounts hash checkPassword_spec [of storeA uidA "\<lparr>ph_verifyHash = [1, 2, 3]\<rparr>"]
  have 4: "checkPassword storeA uidA \<lparr>ph_verifyHash = [1, 2, 3]\<rparr> = Inr uidA"
    by simp
  from absent storeA_accounts hash 1 2 3 4 show ?thesis by simp
qed

subsection \<open>Reading accounts\<close>

text \<open>
  C7. Every successful read that returns an account (\<open>account\<close> by identifier,
  \<open>emailRecord\<close>, \<open>openIdRecord\<close>) returns the stored account without its
  \<open>verifyHash\<close> property and with every other property as stored.
\<close>

theorem account_reads_filtered:
  "(account s uid = Inr v \<longrightarrow>
      verifyHash v = None \<and>
      (\<exists>a. accounts s (hex uid) = Some a \<and> v = a\<lparr>verifyHash := None\<rparr>)) \<and>
   (emailRecord s e = Inr v \<longrightarrow>
      verifyHash v = None \<and>
      (\<exists>k a. uidByNormalizedEmail s (toLowerCase e) = Some k \<and> accounts s k = Some a \<and>
             v = a\<lparr>verifyHash := None\<rparr>)) \<and>
   (openIdRecord s oid = Inr v \<longrightarrow>
      verifyHash v = None \<and>
      (\<exists>k a. uidByOpenId s oid = Some k \<and> accounts s k = Some a \<and>
             v = a\<lparr>verifyHash := None\<rparr>))"
  by (auto simp: account_def emailRecord_def openIdRecord_def getAccountByUid_def
      uidFalsy_def uidHex_def indexEntry_def filterAccount_def
      split: option.splits sum.splits if_splits)

theorem account_reads_filtered_witness:
  "account storeAB uidB = Inr (dataB\<lparr>verifyHash := None\<rparr>) \<and>
   emailRecord storeAB ''Bob@Example.COM'' = Inr (dataB\<lparr>verifyHash := None\<rparr>) \<and>
   openIdRecord storeAB ''https://id.example.com/bob'' = Inr (dataB\<lparr>verifyHash := None\<rparr>) \<and>
   verifyHash dataB = Some [7, 7] \<and>
   verifyHash (dataB\<lparr>verifyHash := None\<rparr>) = None \<and>
   (\<exists>a. accounts storeAB (hex uidB) = Some a \<and>
        dataB\<lparr>verifyHash := None\<rparr> = a\<lparr>verifyHash := None\<rparr>)"
proof -
  have 1: "account storeAB uidB = Inr (dataB\<lparr>verifyHash := None\<rparr>)"
    by (simp add: storeAB_eq account_def getAccountByUid_def uidFalsy_def uidHex_def
        filterAccount_def)
  have 2: "emailRecord storeAB ''Bob@Example.COM'' = Inr (dataB\<lparr>verifyHash := None\<rparr>)"
    by (simp add: storeAB_eq emailRecord_def getAccountByUid_def uidFalsy_def uidHex_def
        filterAccount_def indexEntry_def toLowerCase_def toLowerChar_def hex_uid_nonempty)
  have 3: "openIdRecord storeAB ''https://id.example.com/bob''
             = Inr (dataB\<lparr>verifyHash := None\<rparr>)"
    by (simp add: storeAB_eq openIdRecord_def getAccountByUid_def uidFalsy_def uidHex_def
        filterAccount_def indexEntry_def hex_uid_nonempty)
  have 4: "verifyHash dataB = Some [7, 7]"
    by (simp add: dataB_def)
  from 1 2 3 4
    account_reads_filtered [of storeAB uidB "dataB\<lparr>verifyHash := None\<rparr>"
      "''Bob@Example.COM''" "''https://id.example.com/bob''"]
  show ?thesis by blast
qed

subsection \<open>Creating accounts\<close>

lemma toLowerChar_idem: "toLowerChar (toLowerChar c) = toLowerChar c"
  by (simp add: toLowerChar_def)

lemma toLowerCase_idem: "toLowerCase (toLowerCase x) = toLowerCase x"
  by (simp add: toLowerCase_def toLowerChar_idem)

lemma resetPayload_index [simp]:
  "uidByNormalizedEmail (resetPayload s p) = uidByNormalizedEmail s"
  "uidByOpenId (resetPayload s p) = uidByOpenId s"
  "sessionTokens (resetPayload s p) = sessionTokens s"
  by (simp_all add: resetPayload_def split: payload.splits option.splits)

lemma resetPayload_Fresh [simp]: "resetPayload s (Fresh d) = s"
  by (simp add: resetPayload_def)

lemma truthy_entryTruthy: "truthy (dict k) \<Longrightarrow> entryTruthy dict k"
  by (simp add: truthy_def entryTruthy_def split: option.splits)

text \<open>A successful \<open>createAccount\<close> indexes the payload's \<open>normalizedEmail\<close>.\<close>

lemma createAccount_indexes:
  assumes "createAccount s uid p = (Inr (), s1)" and "payloadObject s p = Some d"
  shows "uidByNormalizedEmail s1 (normalizedEmail d) = Some (hex uid)"
  using assms by (auto simp: createAccount_def Let_def split: if_splits)

text \<open>A \<open>createAccount\<close> whose \<open>normalizedEmail\<close> is indexed fails with Duplicate.\<close>

lemma createAccount_indexed:
  assumes "payloadObject s p = Some d" and "truthy (uidByNormalizedEmail s (normalizedEmail d))"
  shows "createAccount s uid p = (Inl Duplicate, resetPayload s p)"
  using assms by (simp add: createAccount_def Let_def truthy_entryTruthy)

text \<open>The operations other than \<open>createAccount\<close> and \<open>deleteAccount\<close> leave the index alone.\<close>

lemma updateDeviceRecord_index:
  "updateDeviceRecord s d info k = Inr (d', s') \<Longrightarrow>
     uidByNormalizedEmail s' = uidByNormalizedEmail s"
  by (auto simp: updateDeviceRecord_def Let_def split: option.splits if_splits)

lemma unlinkOld_index [simp]:
  "uidByNormalizedEmail (fst (unlinkOld s d info)) = uidByNormalizedEmail s"
  by (simp add: unlinkOld_def split: option.splits)

lemma index_createDevice [simp]:
  "uidByNormalizedEmail (snd (createDevice s uid deviceId info)) = uidByNormalizedEmail s"
  by (auto simp: createDevice_def Let_def putDevice_def dest: updateDeviceRecord_index
      split: sum.splits)

lemma index_updateDevice [simp]:
  "uidByNormalizedEmail (snd (updateDevice s uid deviceId info)) = uidByNormalizedEmail s"
proof -
  have "uidByNormalizedEmail (snd (case updateDeviceRecord (fst (unlinkOld s d info)) d
            (snd (unlinkOld s d info)) k of
          Inl e \<Rightarrow> (Inl e, fst (unlinkOld s d info))
        | Inr (d', s2) \<Rightarrow> (Inr (), putDevice s2 u a k d'))) = uidByNormalizedEmail s"
    for d k u a
    by (auto simp: putDevice_def dest: updateDeviceRecord_index split: sum.splits)
  then show ?thesis
    by (simp add: updateDevice_def Let_def split_beta split: sum.splits option.splits)
qed

lemma index_unchanged [simp]:
  "uidByNormalizedEmail (snd (createSessionToken s t1 p1)) = uidByNormalizedEmail s"
  "uidByNormalizedEmail (snd (createKeyFetchToken s t2 p2)) = uidByNormalizedEmail s"
  "uidByNormalizedEmail (snd (createPasswordForgotToken s t3 p3)) = uidByNormalizedEmail s"
  "uidByNormalizedEmail (snd (createPasswordChangeToken s t4 p4)) = uidByNormalizedEmail s"
  "uidByNormalizedEmail (snd (createAccountResetToken s t5 p5)) = uidByNormalizedEmail s"
  "uidByNormalizedEmail (snd (deleteSessionToken s t6)) = uidByNormalizedEmail s"
  "uidByNormalizedEmail (snd (deleteKeyFetchToken s t6)) = uidByNormalizedEmail s"
  "uidByNormalizedEmail (snd (deleteAccountResetToken s t6)) = uidByNormalizedEmail s"
  "uidByNormalizedEmail (snd (deletePasswordForgotToken s t6)) = uidByNormalizedEmail s"
  "uidByNormalizedEmail (snd (deletePasswordChangeToken s t6)) = uidByNormalizedEmail s"
  "uidByNormalizedEmail (snd (deleteDevice s uid deviceId)) = uidByNormalizedEmail s"
  "uidByNormalizedEmail (snd (accountDevices s uid)) = uidByNormalizedEmail s"
  "uidByNormalizedEmail (snd (verifyEmail s uid)) = uidByNormalizedEmail s"
  "uidByNormalizedEmail (snd (resetAccount s uid rd)) = uidByNormalizedEmail s"
  "uidByNormalizedEmail (snd (updateLocale s uid l)) = uidByNormalizedEmail s"
  "uidByNormalizedEmail (snd (lockAccount utf8 s uid ld)) = uidByNormalizedEmail s"
  "uidByNormalizedEmail (snd (unlockAccount utf8 s uid)) = uidByNormalizedEmail s"
  "uidByNormalizedEmail (snd (updatePasswordForgotToken s t6 n)) = uidByNormalizedEmail s"
  "uidByNormalizedEmail (snd (updateSessionToken s t6 su)) = uidByNormalizedEmail s"
  by (simp_all add: createSessionToken_def createKeyFetchToken_def createPasswordForgotToken_def
      createPasswordChangeToken_def createAccountResetToken_def deleteSessionToken_def
      deleteKeyFetchToken_def deleteAccountResetToken_def deletePasswordForgotToken_def
      deletePasswordChangeToken_def deleteDevice_def accountDevices_def verifyEmail_def
      resetAccount_def updateLocale_def lockAccount_def unlockAccount_def
      updatePasswordForgotToken_def updateSessionToken_def cascade_def Let_def
      split: sum.splits option.splits)

lemma index_forgotPasswordVerified [simp]:
  "uidByNormalizedEmail (snd (forgotPasswordVerified utf8 s tokenId rt)) = uidByNormalizedEmail s"
  by (simp add: forgotPasswordVerified_def split_beta)

text \<open>
  An entry of the index outlasts every operation but the \<open>deleteAccount\<close> of an account
  with that normalized email, and so every list of operations without one.
\<close>

lemma index_kept:
  assumes "truthy (uidByNormalizedEmail s e)" and "\<not> deletesEmail e s op"
  shows "uidByNormalizedEmail (perform utf8 s op) e = uidByNormalizedEmail s e"
proof (cases op)
  case (CreateAccount uid p)
  from assms(1) have "entryTruthy (uidByNormalizedEmail s) e" by (rule truthy_entryTruthy)
  then show ?thesis
    unfolding CreateAccount
    by (auto simp: createAccount_def Let_def split: option.splits)
next
  case (DeleteAccount uid)
  with assms(2) show ?thesis
    by (auto simp: deleteAccount_def getAccountByUid_Buf cascade_def Let_def split: option.splits)
qed simp_all

lemma index_kept_run:
  "truthy (uidByNormalizedEmail s e) \<Longrightarrow> emailKept utf8 e s ops \<Longrightarrow>
     uidByNormalizedEmail (performAll utf8 s ops) e = uidByNormalizedEmail s e"
proof (induction ops arbitrary: s)
  case Nil
  then show ?case by (simp add: performAll_def)
next
  case (Cons op ops)
  from Cons.prems have k: "uidByNormalizedEmail (perform utf8 s op) e = uidByNormalizedEmail s e"
    by (simp add: index_kept)
  with Cons.prems have "truthy (uidByNormalizedEmail (perform utf8 s op) e)"
    and "emailKept utf8 e (perform utf8 s op) ops" by simp_all
  from Cons.IH [OF this] k show ?case by (simp add: performAll_def)
qed

text \<open>
  A key of the index was put there by a \<open>createAccount\<close>, as the \<open>normalizedEmail\<close> of
  its payload.
\<close>

lemma index_origin:
  assumes "uidByNormalizedEmail (perform utf8 s op) k = Some v"
  shows "uidByNormalizedEmail s k = Some v \<or>
     (\<exists>uid p d. op = CreateAccount uid p \<and> payloadObject s p = Some d \<and> k = normalizedEmail d)"
proof (cases op)
  case (CreateAccount uid p)
  with assms show ?thesis
    by (auto simp: createAccount_def Let_def split: option.splits if_splits)
next
  case (DeleteAccount uid)
  with assms show ?thesis
    by (auto simp: deleteAccount_def getAccountByUid_Buf cascade_def Let_def
        split: option.splits if_splits)
qed (use assms in simp_all)

lemma reachable_folded:
  assumes idem: "\<And>x. lower (lower x) = lower x"
    and r: "reachable utf8 (foldedPayload lower) s"
  shows "uidByNormalizedEmail s k = Some v \<Longrightarrow> lower k = k"
  using r
proof (induction arbitrary: k v rule: reachable.induct)
  case initial
  then show ?case by (simp add: emptyStore_def)
next
  case (step s op)
  from index_origin [OF step.prems]
  show ?case
  proof
    assume "uidByNormalizedEmail s k = Some v"
    then show ?thesis by (rule step.IH)
  next
    assume "\<exists>uid p d. op = CreateAccount uid p \<and> payloadObject s p = Some d \<and>
        k = normalizedEmail d"
    then obtain uid p d where "op = CreateAccount uid p" "payloadObject s p = Some d"
      "k = normalizedEmail d" by blast
    with step.hyps(2) have "k = lower (email d)" by simp
    with idem show ?thesis by simp
  qed
qed

text \<open>
  C2. For every pair of \<open>createAccount\<close> calls whose payloads carry, as the data model
  has it, the case-folded \<open>email\<close> as their \<open>normalizedEmail\<close>, and whose emails have
  the same case-folded form: if the first succeeds, for an account identifier that is
  not empty, then the second, made after any list of operations that deletes no account
  with that normalized email, fails with Duplicate, however the two emails are cased, and
  leaves the index of normalized emails as it was. And at every store reached by such
  calls among the other operations, two distinct keys of the index of normalized emails
  never have the same case-folded form. The case folding is any function \<open>lower\<close>; for
  the index it is to be idempotent.
\<close>

theorem createAccount_duplicate_email:
  "(payloadObject s p1 = Some d1 \<and> normalizedEmail d1 = lower (email d1) \<and>
    createAccount s uid1 p1 = (Inr (), s1) \<and> uid1 \<noteq> [] \<and>
    emailKept utf8 (normalizedEmail d1) s1 ops \<and>
    payloadObject (performAll utf8 s1 ops) p2 = Some d2 \<and>
    normalizedEmail d2 = lower (email d2) \<and> lower (email d2) = lower (email d1)
    \<longrightarrow> fst (createAccount (performAll utf8 s1 ops) uid2 p2) = Inl Duplicate \<and>
        uidByNormalizedEmail (snd (createAccount (performAll utf8 s1 ops) uid2 p2))
          = uidByNormalizedEmail (performAll utf8 s1 ops)) \<and>
   ((\<forall>x. lower (lower x) = lower x) \<and> reachable utf8 (foldedPayload lower) r \<and>
    uidByNormalizedEmail r k1 \<noteq> None \<and> uidByNormalizedEmail r k2 \<noteq> None \<and> k1 \<noteq> k2
    \<longrightarrow> lower k1 \<noteq> lower k2)"
proof (rule conjI; rule impI; elim conjE)
  assume p1: "payloadObject s p1 = Some d1" and ok: "createAccount s uid1 p1 = (Inr (), s1)"
    and uid1: "uid1 \<noteq> []" and kept: "emailKept utf8 (normalizedEmail d1) s1 ops"
    and p2: "payloadObject (performAll utf8 s1 ops) p2 = Some d2"
    and n1: "normalizedEmail d1 = lower (email d1)" and n2: "normalizedEmail d2 = lower (email d2)"
    and same: "lower (email d2) = lower (email d1)"
  from createAccount_indexes [OF ok p1] uid1
  have t: "truthy (uidByNormalizedEmail s1 (normalizedEmail d1))"
    by (simp add: truthy_def hex_Nil_iff)
  from index_kept_run [OF t kept] t n1 n2 same
  have "truthy (uidByNormalizedEmail (performAll utf8 s1 ops) (normalizedEmail d2))"
    by simp
  from createAccount_indexed [OF p2 this, of uid2]
  show "fst (createAccount (performAll utf8 s1 ops) uid2 p2) = Inl Duplicate \<and>
      uidByNormalizedEmail (snd (createAccount (performAll utf8 s1 ops) uid2 p2))
        = uidByNormalizedEmail (performAll utf8 s1 ops)"
    by simp
next
  assume idem: "\<forall>x. lower (lower x) = lower x"
    and r: "reachable utf8 (foldedPayload lower) r"
    and k: "uidByNormalizedEmail r k1 \<noteq> None" "uidByNormalizedEmail r k2 \<noteq> None" "k1 \<noteq> k2"
  from idem have i: "\<And>x. lower (lower x) = lower x" by simp
  from k(1) reachable_folded [OF i r] have "lower k1 = k1" by auto
  moreover from k(2) reachable_folded [OF i r] have "lower k2 = k2" by auto
  ultimately show "lower k1 \<noteq> lower k2" using k(3) by simp
qed

theorem createAccount_duplicate_email_witness:
  "payloadObject emptyStore (Fresh dataA) = Some dataA \<and>
   normalizedEmail dataA = toLowerCase (email dataA) \<and>
   createAccount emptyStore uidA (Fresh dataA) = (Inr (), storeA) \<and> uidA \<noteq> [] \<and>
   emailKept bytesAsChars (normalizedEmail dataA) storeA
     [CreateSessionToken tokS sessionS, CreateDevice uidA devD infoD, VerifyEmail uidA] \<and>
   performAll bytesAsChars storeA
     [CreateSessionToken tokS sessionS, CreateDevice uidA devD infoD, VerifyEmail uidA]
     = storeASDV \<and>
   payloadObject storeASDV (Fresh dataA2) = Some dataA2 \<and>
   normalizedEmail dataA2 = toLowerCase (email dataA2) \<and>
   email dataA2 \<noteq> email dataA \<and> toLowerCase (email dataA2) = toLowerCase (email dataA) \<and>
   fst (createAccount storeASDV uidB (Fresh dataA2)) = Inl Duplicate \<and>
   uidByNormalizedEmail (snd (createAccount storeASDV uidB (Fresh dataA2)))
     = uidByNormalizedEmail storeASDV \<and>
   uidByNormalizedEmail storeASDV ''ann@example.com'' = Some (hex uidA) \<and>
   (\<forall>x. toLowerCase (toLowerCase x) = toLowerCase x) \<and>
   reachable bytesAsChars (foldedPayload toLowerCase) storeAB \<and>
   uidByNormalizedEmail storeAB ''ann@example.com'' \<noteq> None \<and>
   uidByNormalizedEmail storeAB ''bob@example.com'' \<noteq> None \<and>
   toLowerCase ''ann@example.com'' \<noteq> toLowerCase ''bob@example.com''"
proof -
  let ?ops = "[CreateSessionToken tokS sessionS, CreateDevice uidA devD infoD, VerifyEmail uidA]"
  have 1: "payloadObject emptyStore (Fresh dataA) = Some dataA"
    by (simp add: payloadObject_def)
  have 2: "normalizedEmail dataA = toLowerCase (email dataA)"
    by (simp add: dataA_def toLowerCase_def toLowerChar_def)
  have 3: "createAccount emptyStore uidA (Fresh dataA) = (Inr (), storeA)"
    by (simp add: storeA_def createAccount_def payloadObject_def emptyStore_def truthy_def
        entryTruthy_def inheritedNames_def dataA_def Let_def)
  have 4: "uidA \<noteq> []" by (simp add: uidA_def)
  have 5: "emailKept bytesAsChars (normalizedEmail dataA) storeA ?ops"
    by simp
  have 6: "performAll bytesAsChars storeA ?ops = storeASDV"
    by (simp add: performAll_def storeASDV_def storeASD_def storeAS_def)
  have 7: "payloadObject (performAll bytesAsChars storeA ?ops) (Fresh dataA2) = Some dataA2"
    by (simp add: payloadObject_def)
  have p2: "payloadObject storeASDV (Fresh dataA2) = Some dataA2"
    by (simp add: payloadObject_def)
  have 8: "normalizedEmail dataA2 = toLowerCase (email dataA2)"
    by (simp add: dataA2_def dataA_def toLowerCase_def toLowerChar_def)
  have 9: "email dataA2 \<noteq> email dataA"
    by (simp add: dataA2_def dataA_def)
  have 10: "toLowerCase (email dataA2) = toLowerCase (email dataA)"
    by (simp add: dataA2_def dataA_def toLowerCase_def toLowerChar_def)
  have 11: "\<forall>x. toLowerCase (toLowerCase x) = toLowerCase x"
    by (simp add: toLowerCase_idem)
  have "reachable bytesAsChars (foldedPayload toLowerCase) storeA"
    by (rule reachable_step [OF reachable.initial, of _ "CreateAccount uidA (Fresh dataA)"])
      (simp_all add: storeA_def payloadObject_def 2)
  then have 12: "reachable bytesAsChars (foldedPayload toLowerCase) storeAB"
    by (rule reachable_step [of _ _ _ "CreateAccount uidB (Fresh dataB)"])
      (simp_all add: storeAB_def payloadObject_def dataB_def toLowerCase_def toLowerChar_def)
  have 13: "uidByNormalizedEmail storeAB ''ann@example.com'' \<noteq> None"
    and 14: "uidByNormalizedEmail storeAB ''bob@example.com'' \<noteq> None"
    by (simp_all add: storeAB_eq)
  have 15: "(''ann@example.com'' :: string) \<noteq> ''bob@example.com''" by simp
  note inst = createAccount_duplicate_email [of emptyStore "Fresh dataA" dataA toLowerCase uidA
      storeA bytesAsChars ?ops "Fresh dataA2" dataA2 uidB storeAB
      "''ann@example.com''" "''bob@example.com''"]
  from inst 1 2 3 4 5 7 8 10
  have "fst (createAccount (performAll bytesAsChars storeA ?ops) uidB (Fresh dataA2))
        = Inl Duplicate \<and>
      uidByNormalizedEmail (snd (createAccount (performAll bytesAsChars storeA ?ops) uidB
          (Fresh dataA2)))
        = uidByNormalizedEmail (performAll bytesAsChars storeA ?ops)"
    by blast
  then have 16: "fst (createAccount storeASDV uidB (Fresh dataA2)) = Inl Duplicate"
    and 18: "uidByNormalizedEmail (snd (createAccount storeASDV uidB (Fresh dataA2)))
        = uidByNormalizedEmail storeASDV"
    by (simp_all add: 6)
  have 19: "uidByNormalizedEmail storeASDV ''ann@example.com'' = Some (hex uidA)"
    by (simp add: storeASDV_eq storeASD_eq storeA_eq)
  from inst 11 12 13 14 15
  have 17: "toLowerCase ''ann@example.com'' \<noteq> toLowerCase ''bob@example.com''"
    by blast
  from 1 2 3 4 5 6 p2 8 9 10 11 12 13 14 16 17 18 19 show ?thesis
    by blast
qed

text \<open>
  The hypotheses on which the statement rests are needed. \<open>createAccount\<close> does not
  fold the case itself: handed two payloads whose \<open>normalizedEmail\<close> differ in case, it
  creates both accounts and the index has both keys. \<open>deleteAccount\<close> frees the
  normalized email of the account it deletes. And the index entry of an account that is
  created under the empty identifier is the empty string, which the test takes for no
  entry.
\<close>

lemma createAccount_indexes_as_given:
  "fst (createAccount emptyStore uidA (Fresh dataUpper)) = Inr () \<and>
   fst (createAccount (snd (createAccount emptyStore uidA (Fresh dataUpper))) uidB (Fresh dataA))
     = Inr () \<and>
   uidByNormalizedEmail
     (snd (createAccount (snd (createAccount emptyStore uidA (Fresh dataUpper))) uidB (Fresh dataA)))
     = [''Ann@Example.com'' \<mapsto> hex uidA, ''ann@example.com'' \<mapsto> hex uidB]"
  by (simp add: createAccount_def payloadObject_def emptyStore_def truthy_def entryTruthy_def
      inheritedNames_def dataA_def dataUpper_def Let_def hex_eq_iff uidA_neq_uidB)

lemma createAccount_after_deleteAccount:
  "fst (deleteAccount storeA uidA) = Inr [] \<and>
   deletesEmail (normalizedEmail dataA) storeA (DeleteAccount uidA) \<and>
   fst (createAccount (snd (deleteAccount storeA uidA)) uidB (Fresh dataA2)) = Inr ()"
  by (simp add: storeA_eq deleteAccount_def getAccountByUid_Buf cascade_def createAccount_def
      payloadObject_def emptyStore_def truthy_def entryTruthy_def inheritedNames_def dataA_def
      dataA2_def Let_def)

lemma createAccount_empty_identifier:
  "fst (createAccount emptyStore [] (Fresh dataA)) = Inr () \<and>
   uidByNormalizedEmail (snd (createAccount emptyStore [] (Fresh dataA))) ''ann@example.com''
     = Some [] \<and>
   fst (createAccount (snd (createAccount emptyStore [] (Fresh dataA))) uidB (Fresh dataA2))
     = Inr ()"
  by (simp add: createAccount_def payloadObject_def emptyStore_def truthy_def entryTruthy_def
      inheritedNames_def dataA_def dataA2_def Let_def hex_eq_iff hex_Nil_iff uidB_def)

subsection \<open>Session tokens\<close>

text \<open>
  The read \<open>sessionToken\<close> returns each user-agent property through \<open>|| null\<close>, so an
  empty string stored by \<open>createSessionToken\<close> is read back as \<open>null\<close>: here the
  device type.
\<close>

theorem sessionToken_roundtrip_counterexample:
  "fst (createSessionToken storeA tokS sessionS) = Inr () \<and>
   sp_uaDeviceType sessionS = Some '''' \<and>
   sessionToken (snd (createSessionToken storeA tokS sessionS)) tokS =
     Inr \<lparr>si_tokenData = [0xDD], si_uid = uidA, si_createdAt = 1000,
          si_uaBrowser = Some ''Firefox'', si_uaBrowserVersion = Some ''41'',
          si_uaOS = Some ''Linux'', si_uaOSVersion = Some ''4.2'', si_uaDeviceType = None,
          si_lastAccessTime = 1000, si_emailVerified = 0, si_email = ''Ann@Example.com'',
          si_emailCode = [6], si_verifierSetAt = 10, si_locale = Some ''en'',
          si_accountCreatedAt = 100\<rparr>"
  by (simp add: createSessionToken_def sessionToken_def storeA_eq emptyStore_def sessionS_def
      dataA_def orNull_def truthy_def Let_def)

text \<open>
  C8, as amended. For every account A and every successful \<open>createSessionToken\<close> for A,
  a later \<open>sessionToken\<close> read of the same identifier, in any store that holds the row
  as it was created (but for its \<open>deviceKey\<close>, which binding a device sets) and holds
  A, returns the token's data, owner and creation time, each supplied user-agent property
  that is a non-empty string (an absent or empty one as \<open>null\<close>), \<open>lastAccessTime\<close>
  equal to the supplied \<open>createdAt\<close>, and A's \<open>emailVerified\<close>, \<open>email\<close>,
  \<open>emailCode\<close>, \<open>verifierSetAt\<close>, \<open>locale\<close> and \<open>createdAt\<close> as they are stored at the
  time of the read.
\<close>

theorem sessionToken_roundtrip:
  assumes "createSessionToken s tokenId tok = (Inr (), s1)"
    and "sessionTokens s1 (hex tokenId) = Some t"
    and "sessionTokens s2 (hex tokenId) = Some (t\<lparr>st_deviceKey := deviceKey\<rparr>)"
    and "accounts s2 (hex (sp_uid tok)) = Some a2"
  shows "sessionToken s2 tokenId =
     Inr \<lparr>si_tokenData = sp_data tok, si_uid = sp_uid tok, si_createdAt = sp_createdAt tok,
          si_uaBrowser = orNull (sp_uaBrowser tok),
          si_uaBrowserVersion = orNull (sp_uaBrowserVersion tok),
          si_uaOS = orNull (sp_uaOS tok),
          si_uaOSVersion = orNull (sp_uaOSVersion tok),
          si_uaDeviceType = orNull (sp_uaDeviceType tok),
          si_lastAccessTime = sp_createdAt tok,
          si_emailVerified = emailVerified a2, si_email = email a2,
          si_emailCode = emailCode a2, si_verifierSetAt = verifierSetAt a2,
          si_locale = acc_locale a2, si_accountCreatedAt = createdAt a2\<rparr>"
  using assms
  by (auto simp: createSessionToken_def sessionToken_def Let_def split: if_splits)

theorem sessionToken_roundtrip_witness:
  "createSessionToken storeA tokS sessionS = (Inr (), storeAS) \<and>
   sessionTokens storeAS (hex tokS) = Some rowS \<and>
   storeASDV = performAll bytesAsChars storeAS [CreateDevice uidA devD infoD, VerifyEmail uidA] \<and>
   sessionTokens storeASDV (hex tokS) = Some (rowS\<lparr>st_deviceKey := Some (hex devD)\<rparr>) \<and>
   accounts storeAS (hex (sp_uid sessionS)) = Some dataA \<and>
   accounts storeASDV (hex (sp_uid sessionS))
     = Some (dataA\<lparr>devices := [(hex devD, deviceD)], emailVerified := 1\<rparr>) \<and>
   sessionToken storeASDV tokS =
     Inr \<lparr>si_tokenData = [0xDD], si_uid = uidA, si_createdAt = 1000,
          si_uaBrowser = Some ''Firefox'', si_uaBrowserVersion = Some ''41'',
          si_uaOS = Some ''Linux'', si_uaOSVersion = Some ''4.2'', si_uaDeviceType = None,
          si_lastAccessTime = 1000, si_emailVerified = 1, si_email = ''Ann@Example.com'',
          si_emailCode = [6], si_verifierSetAt = 10, si_locale = Some ''en'',
          si_accountCreatedAt = 100\<rparr>"
proof -
  have 1: "createSessionToken storeA tokS sessionS = (Inr (), storeAS)"
    by (simp add: storeAS_def createSessionToken_def storeA_eq emptyStore_def Let_def)
  have 2: "sessionTokens storeAS (hex tokS) = Some rowS"
    by (simp add: storeAS_eq)
  have 3: "storeASDV = performAll bytesAsChars storeAS [CreateDevice uidA devD infoD, VerifyEmail uidA]"
    by (simp add: performAll_def storeASDV_def storeASD_def)
  have 4: "sessionTokens storeASDV (hex tokS) = Some (rowS\<lparr>st_deviceKey := Some (hex devD)\<rparr>)"
    by (simp add: storeASDV_eq storeASD_eq)
  have 5: "accounts storeAS (hex (sp_uid sessionS)) = Some dataA"
    by (simp add: storeAS_eq storeA_eq sessionS_def)
  have 6: "accounts storeASDV (hex (sp_uid sessionS))
     = Some (dataA\<lparr>devices := [(hex devD, deviceD)], emailVerified := 1\<rparr>)"
    by (simp add: storeASDV_eq sessionS_def)
  from sessionToken_roundtrip [OF 1 2 4 6] 1 2 3 4 5 6 show ?thesis
    by (simp add: sessionS_def dataA_def orNull_def truthy_def)
qed

text \<open>
  C10. \<open>createSessionToken\<close> does not look the owning account up: it succeeds whenever
  the token identifier is new, also when no account has the payload's \<open>uid\<close>. The read
  \<open>sessionToken\<close> of a stored token returns a value exactly when the token's owning
  account is in the store; when it is not, the read of the account's properties raises
  a TypeError.
\<close>

theorem sessionToken_owner_unchecked:
  "(sessionTokens s (hex tokenId) = None \<longrightarrow>
      fst (createSessionToken s tokenId tok) = Inr () \<and>
      (\<exists>t. sessionTokens (snd (createSessionToken s tokenId tok)) (hex tokenId) = Some t \<and>
           st_uid t = sp_uid tok) \<and>
      (accounts s (hex (sp_uid tok)) = None \<longrightarrow>
         sessionToken (snd (createSessionToken s tokenId tok)) tokenId = Inl TypeError)) \<and>
   (\<forall>t. sessionTokens s (hex tokenId) = Some t \<longrightarrow>
      ((\<exists>item. sessionToken s tokenId = Inr item) \<longleftrightarrow> accounts s (hex (st_uid t)) \<noteq> None) \<and>
      (accounts s (hex (st_uid t)) = None \<longrightarrow> sessionToken s tokenId = Inl TypeError))"
  by (auto simp: createSessionToken_def sessionToken_def Let_def split: option.splits)

theorem sessionToken_owner_unchecked_witness:
  "sessionTokens emptyStore (hex tokS) = None \<and>
   accounts emptyStore (hex (sp_uid sessionS)) = None \<and>
   fst (createSessionToken emptyStore tokS sessionS) = Inr () \<and>
   sessionToken (snd (createSessionToken emptyStore tokS sessionS)) tokS = Inl TypeError \<and>
   sessionTokens storeAS (hex tokS) = Some rowS \<and>
   accounts storeAS (hex (st_uid rowS)) \<noteq> None \<and>
   (\<exists>item. sessionToken storeAS tokS = Inr item)"
proof -
  have 1: "sessionTokens emptyStore (hex tokS) = None"
    and 2: "accounts emptyStore (hex (sp_uid sessionS)) = None"
    by (simp_all add: emptyStore_def)
  have 3: "sessionTokens storeAS (hex tokS) = Some rowS"
    and 4: "accounts storeAS (hex (st_uid rowS)) \<noteq> None"
    by (simp_all add: storeAS_eq storeA_eq rowS_def)
  from 1 2 sessionToken_owner_unchecked [of emptyStore tokS sessionS]
  have 5: "fst (createSessionToken emptyStore tokS sessionS) = Inr ()"
    and 6: "sessionToken (snd (createSessionToken emptyStore tokS sessionS)) tokS = Inl TypeError"
    by blast+
  from 3 4 sessionToken_owner_unchecked [of storeAS tokS sessionS]
  have 7: "\<exists>item. sessionToken storeAS tokS = Inr item"
    by blast
  from 1 2 3 4 5 6 7 show ?thesis by blast
qed

subsection \<open>Password-forgot tokens\<close>

text \<open>
  C6. When account A holds a password-forgot token T1, \<open>createPasswordForgotToken\<close> for A
  with an identifier that has a row already fails with Duplicate and changes nothing;
  with a new identifier it succeeds, removes T1 (a read of T1 then fails with NotFound),
  stores the new row as the only row of A, and keeps the table at one row per account at
  most.
\<close>

theorem createPasswordForgotToken_replaces:
  assumes "passwordForgotTokens s (hex t1) = Some row1" and "pf_uid row1 = fp_uid tok"
  shows "(passwordForgotTokens s (hex t2) \<noteq> None \<longrightarrow>
            createPasswordForgotToken s t2 tok = (Inl Duplicate, s)) \<and>
         (passwordForgotTokens s (hex t2) = None \<longrightarrow>
            fst (createPasswordForgotToken s t2 tok) = Inr () \<and>
            passwordForgotTokens (snd (createPasswordForgotToken s t2 tok)) (hex t1) = None \<and>
            passwordForgotToken (snd (createPasswordForgotToken s t2 tok)) t1 = Inl NotFound \<and>
            passwordForgotTokens (snd (createPasswordForgotToken s t2 tok)) (hex t2) =
              Some \<lparr>pf_tokenData = fp_data tok, pf_uid = fp_uid tok, pf_passCode = fp_passCode tok,
                    pf_tries = fp_tries tok, pf_createdAt = fp_createdAt tok\<rparr> \<and>
            (\<forall>k row. passwordForgotTokens (snd (createPasswordForgotToken s t2 tok)) k = Some row \<and>
                 pf_uid row = fp_uid tok \<longrightarrow> k = hex t2) \<and>
            (onePerAccount pf_uid (passwordForgotTokens s) \<longrightarrow>
               onePerAccount pf_uid (passwordForgotTokens (snd (createPasswordForgotToken s t2 tok)))))"
proof (intro conjI impI)
  assume "passwordForgotTokens s (hex t2) \<noteq> None"
  then show "createPasswordForgotToken s t2 tok = (Inl Duplicate, s)"
    by (simp add: createPasswordForgotToken_def Let_def)
next
  assume fresh: "passwordForgotTokens s (hex t2) = None"
  let ?s' = "snd (createPasswordForgotToken s t2 tok)"
  have tbl: "passwordForgotTokens ?s' =
      (deleteByUid (hex (fp_uid tok)) pf_uid (passwordForgotTokens s))(hex t2 \<mapsto>
         \<lparr>pf_tokenData = fp_data tok, pf_uid = fp_uid tok, pf_passCode = fp_passCode tok,
          pf_tries = fp_tries tok, pf_createdAt = fp_createdAt tok\<rparr>)"
    using fresh by (simp add: createPasswordForgotToken_def Let_def)
  from fresh assms(1) have ne: "hex t1 \<noteq> hex t2" by auto
  show "fst (createPasswordForgotToken s t2 tok) = Inr ()"
    using fresh by (simp add: createPasswordForgotToken_def Let_def)
  show gone: "passwordForgotTokens ?s' (hex t1) = None"
    using assms ne by (simp add: tbl deleteByUid_def)
  show "passwordForgotToken ?s' t1 = Inl NotFound"
    using gone by (simp add: passwordForgotToken_def)
  show "passwordForgotTokens ?s' (hex t2) =
      Some \<lparr>pf_tokenData = fp_data tok, pf_uid = fp_uid tok, pf_passCode = fp_passCode tok,
            pf_tries = fp_tries tok, pf_createdAt = fp_createdAt tok\<rparr>"
    by (simp add: tbl)
  show only: "\<forall>k row. passwordForgotTokens ?s' k = Some row \<and> pf_uid row = fp_uid tok \<longrightarrow> k = hex t2"
    by (auto simp: tbl deleteByUid_def split: if_splits option.splits)
  assume one: "onePerAccount pf_uid (passwordForgotTokens s)"
  show "onePerAccount pf_uid (passwordForgotTokens ?s')"
    unfolding onePerAccount_def
  proof (intro allI impI, elim conjE)
    fix k1 k2 r1 r2
    assume a: "passwordForgotTokens ?s' k1 = Some r1" "passwordForgotTokens ?s' k2 = Some r2"
      "pf_uid r1 = pf_uid r2"
    show "k1 = k2"
    proof (cases "pf_uid r1 = fp_uid tok")
      case True
      with a only show ?thesis by metis
    next
      case False
      with a have "passwordForgotTokens s k1 = Some r1" "passwordForgotTokens s k2 = Some r2"
        by (auto simp: tbl deleteByUid_def split: if_splits option.splits)
      with one a(3) show ?thesis unfolding onePerAccount_def by blast
    qed
  qed
qed

theorem createPasswordForgotToken_replaces_witness:
  "passwordForgotTokens storeAF (hex tokF1) =
     Some \<lparr>pf_tokenData = [1], pf_uid = uidA, pf_passCode = [2], pf_tries = 3,
           pf_createdAt = 2000\<rparr> \<and>
   passwordForgotTokens storeAF (hex tokF2) = None \<and>
   onePerAccount pf_uid (passwordForgotTokens storeAF) \<and>
   fst (createPasswordForgotToken storeAF tokF2 forgotF) = Inr () \<and>
   passwordForgotToken (snd (createPasswordForgotToken storeAF tokF2 forgotF)) tokF1
     = Inl NotFound \<and>
   onePerAccount pf_uid
     (passwordForgotTokens (snd (createPasswordForgotToken storeAF tokF2 forgotF))) \<and>
   createPasswordForgotToken storeAF tokF1 forgotF = (Inl Duplicate, storeAF)"
proof -
  have 1: "passwordForgotTokens storeAF (hex tokF1) =
     Some \<lparr>pf_tokenData = [1], pf_uid = uidA, pf_passCode = [2], pf_tries = 3,
           pf_createdAt = 2000\<rparr>"
    by (simp add: storeAF_eq)
  have 2: "pf_uid \<lparr>pf_tokenData = [1], pf_uid = uidA, pf_passCode = [2], pf_tries = 3,
           pf_createdAt = 2000\<rparr> = fp_uid forgotF"
    by (simp add: forgotF_def)
  have 3: "passwordForgotTokens storeAF (hex tokF2) = None"
    by (simp add: storeAF_eq hex_eq_iff tokF1_def tokF2_def)
  have 4: "onePerAccount pf_uid (passwordForgotTokens storeAF)"
    by (simp add: storeAF_eq onePerAccount_def)
  have 5: "passwordForgotTokens storeAF (hex tokF1) \<noteq> None"
    using 1 by simp
  from createPasswordForgotToken_replaces [OF 1 2, of tokF2] 3 4
  have 6: "fst (createPasswordForgotToken storeAF tokF2 forgotF) = Inr ()"
    and 7: "passwordForgotToken (snd (createPasswordForgotToken storeAF tokF2 forgotF)) tokF1
      = Inl NotFound"
    and 8: "onePerAccount pf_uid
     (passwordForgotTokens (snd (createPasswordForgotToken storeAF tokF2 forgotF)))"
    by blast+
  from createPasswordForgotToken_replaces [OF 1 2, of tokF1] 5
  have 9: "createPasswordForgotToken storeAF tokF1 forgotF = (Inl Duplicate, storeAF)"
    by blast
  from 1 3 4 6 7 8 9 show ?thesis by blast
qed

subsection \<open>Deleting a session token\<close>

text \<open>
  C9. \<open>deleteSessionToken\<close> succeeds and changes the session-token table only, removing
  the token's row. A device that names the deleted token keeps its record, its
  \<open>sessionTokenId\<close> included, and \<open>accountDevices\<close> for its account, called next, lists
  that very record.
\<close>

theorem deleteSessionToken_frame:
  "fst (deleteSessionToken s tokenId) = Inr () \<and>
   snd (deleteSessionToken s tokenId) = s\<lparr>sessionTokens := (sessionTokens s)(hex tokenId := None)\<rparr> \<and>
   (\<forall>a deviceKey d. accounts s (hex uid) = Some a \<and> map_of (devices a) deviceKey = Some d \<and>
        dev_sessionTokenId d = Some tokenId \<longrightarrow>
      accounts (snd (deleteSessionToken s tokenId)) (hex uid) = Some a \<and>
      (\<exists>ds. fst (accountDevices (snd (deleteSessionToken s tokenId)) uid) = Inr ds \<and> d \<in> set ds))"
proof -
  let ?s' = "s\<lparr>sessionTokens := (sessionTokens s)(hex tokenId := None)\<rparr>"
  have eq: "snd (deleteSessionToken s tokenId) = ?s'"
  proof (cases "sessionTokens s (hex tokenId)")
    case None
    then have "(sessionTokens s)(hex tokenId := None) = sessionTokens s" by auto
    with None show ?thesis by (simp add: deleteSessionToken_def Let_def)
  next
    case (Some t)
    then show ?thesis by (simp add: deleteSessionToken_def Let_def)
  qed
  have r: "fst (deleteSessionToken s tokenId) = Inr ()"
    by (simp add: deleteSessionToken_def Let_def)
  have l: "accounts ?s' (hex uid) = Some a \<and>
      (\<exists>ds. fst (accountDevices ?s' uid) = Inr ds \<and> d \<in> set ds)"
    if "accounts s (hex uid) = Some a" "map_of (devices a) deviceKey = Some d"
      "dev_sessionTokenId d = Some tokenId" for a deviceKey d
  proof -
    from that(2) have m: "(deviceKey, d) \<in> set (devices a)" by (rule map_of_SomeD)
    from that(3) have "refreshDevice ?s' d = d"
      by (simp add: refreshDevice_def sessionKeyOf_def)
    with m have "d \<in> snd ` set (objectKeys (map (\<lambda>(deviceKey, device).
        (deviceKey, refreshDevice ?s' device)) (devices a)))"
      by force
    with that(1) show ?thesis
      by (simp add: accountDevices_def getAccountByUid_def uidFalsy_def uidHex_def Let_def
          del: objectKeys_set)
  qed
  from l have "\<forall>a deviceKey d. accounts s (hex uid) = Some a \<and> map_of (devices a) deviceKey = Some d \<and>
        dev_sessionTokenId d = Some tokenId \<longrightarrow>
      accounts ?s' (hex uid) = Some a \<and>
      (\<exists>ds. fst (accountDevices ?s' uid) = Inr ds \<and> d \<in> set ds)"
    by blast
  with eq r show ?thesis by simp
qed

theorem deleteSessionToken_frame_witness:
  "accounts storeASD (hex uidA) = Some (dataA\<lparr>devices := [(hex devD, deviceD)]\<rparr>) \<and>
   map_of (devices (dataA\<lparr>devices := [(hex devD, deviceD)]\<rparr>)) (hex devD) = Some deviceD \<and>
   dev_sessionTokenId deviceD = Some tokS \<and>
   sessionTokens storeASD (hex tokS) \<noteq> None \<and>
   sessionTokens (snd (deleteSessionToken storeASD tokS)) (hex tokS) = None \<and>
   accounts (snd (deleteSessionToken storeASD tokS)) (hex uidA)
     = Some (dataA\<lparr>devices := [(hex devD, deviceD)]\<rparr>) \<and>
   (\<exists>ds. fst (accountDevices (snd (deleteSessionToken storeASD tokS)) uidA) = Inr ds \<and>
         deviceD \<in> set ds)"
proof -
  have 1: "accounts storeASD (hex uidA) = Some (dataA\<lparr>devices := [(hex devD, deviceD)]\<rparr>)"
    by (simp add: storeASD_eq)
  have 2: "map_of (devices (dataA\<lparr>devices := [(hex devD, deviceD)]\<rparr>)) (hex devD) = Some deviceD"
    by simp
  have 3: "dev_sessionTokenId deviceD = Some tokS"
    by (simp add: deviceD_def)
  have 4: "sessionTokens storeASD (hex tokS) \<noteq> None"
    by (simp add: storeASD_eq)
  from deleteSessionToken_frame [of storeASD tokS uidA]
  have 5: "snd (deleteSessionToken storeASD tokS)
      = storeASD\<lparr>sessionTokens := (sessionTokens storeASD)(hex tokS := None)\<rparr>"
    by blast
  from 5 have 6: "sessionTokens (snd (deleteSessionToken storeASD tokS)) (hex tokS) = None"
    by simp
  from 1 2 3 deleteSessionToken_frame [of storeASD tokS uidA]
  have 7: "accounts (snd (deleteSessionToken storeASD tokS)) (hex uidA)
     = Some (dataA\<lparr>devices := [(hex devD, deviceD)]\<rparr>) \<and>
   (\<exists>ds. fst (accountDevices (snd (deleteSessionToken storeASD tokS)) uidA) = Inr ds \<and>
         deviceD \<in> set ds)"
    by blast
  from 1 2 3 4 6 7 show ?thesis by blast
qed

subsection \<open>Completing the forgot-password workflow\<close>

lemma forgotPasswordVerified_eq:
  assumes "accounts s (hex (rp_uid rt)) = Some a"
  shows "forgotPasswordVerified utf8 s tokenId rt =
    (Inr [(), (), (), ()],
     s\<lparr>passwordForgotTokens := (passwordForgotTokens s)(hex tokenId := None),
      accountResetTokens := (deleteByUid (hex (rp_uid rt)) ar_uid (accountResetTokens s))
        (hex (rp_tokenId rt) \<mapsto>
           \<lparr>ar_tokenData = rp_data rt, ar_uid = rp_uid rt, ar_createdAt = rp_createdAt rt\<rparr>),
      accounts := (accounts s)(hex (rp_uid rt) \<mapsto> a\<lparr>emailVerified := 1, lockedAt := None\<rparr>),
      accountUnlockCodes := (accountUnlockCodes s)(utf8 (rp_uid rt) := None)\<rparr>)"
  using assms
  by (simp add: forgotPasswordVerified_def deletePasswordForgotToken_def
        createAccountResetToken_def verifyEmail_def unlockAccount_def getAccountByUid_def
        uidFalsy_def uidHex_def Let_def)

text \<open>
  C4. For an account A in the store, \<open>forgotPasswordVerified\<close> with a forgot-token
  identifier and a reset-token payload for A succeeds and leaves the store with: no
  password-forgot token under that identifier (a read fails with NotFound), the supplied
  account-reset token stored and the only reset token of A, A's \<open>emailVerified\<close> set to
  1, A's \<open>lockedAt\<close> null, and no unlock code for A.
\<close>

theorem forgotPasswordVerified_effects:
  assumes "accounts s (hex (rp_uid rt)) = Some a"
  shows "fst (forgotPasswordVerified utf8 s tokenId rt) = Inr [(), (), (), ()] \<and>
     passwordForgotTokens (snd (forgotPasswordVerified utf8 s tokenId rt)) (hex tokenId) = None \<and>
     passwordForgotToken (snd (forgotPasswordVerified utf8 s tokenId rt)) tokenId = Inl NotFound \<and>
     accountResetTokens (snd (forgotPasswordVerified utf8 s tokenId rt)) (hex (rp_tokenId rt)) =
       Some \<lparr>ar_tokenData = rp_data rt, ar_uid = rp_uid rt, ar_createdAt = rp_createdAt rt\<rparr> \<and>
     (\<forall>k row. accountResetTokens (snd (forgotPasswordVerified utf8 s tokenId rt)) k = Some row \<and>
          ar_uid row = rp_uid rt \<longrightarrow> k = hex (rp_tokenId rt)) \<and>
     accounts (snd (forgotPasswordVerified utf8 s tokenId rt)) (hex (rp_uid rt)) =
       Some (a\<lparr>emailVerified := 1, lockedAt := None\<rparr>) \<and>
     accountUnlockCodes (snd (forgotPasswordVerified utf8 s tokenId rt)) (utf8 (rp_uid rt)) = None \<and>
     unlockCode utf8 (snd (forgotPasswordVerified utf8 s tokenId rt)) (rp_uid rt) = Inl NotFound"
proof -
  note eq = forgotPasswordVerified_eq [OF assms, of utf8 tokenId]
  have 1: "fst (forgotPasswordVerified utf8 s tokenId rt) = Inr [(), (), (), ()]"
    by (simp add: eq)
  have 2: "passwordForgotTokens (snd (forgotPasswordVerified utf8 s tokenId rt)) (hex tokenId) = None"
    by (simp add: eq)
  have 3: "passwordForgotToken (snd (forgotPasswordVerified utf8 s tokenId rt)) tokenId = Inl NotFound"
    using 2 by (simp add: passwordForgotToken_def)
  have tbl: "accountResetTokens (snd (forgotPasswordVerified utf8 s tokenId rt)) =
      (deleteByUid (hex (rp_uid rt)) ar_uid (accountResetTokens s))(hex (rp_tokenId rt) \<mapsto>
           \<lparr>ar_tokenData = rp_data rt, ar_uid = rp_uid rt, ar_createdAt = rp_createdAt rt\<rparr>)"
    by (simp add: eq)
  have 4: "accountResetTokens (snd (forgotPasswordVerified utf8 s tokenId rt)) (hex (rp_tokenId rt)) =
       Some \<lparr>ar_tokenData = rp_data rt, ar_uid = rp_uid rt, ar_createdAt = rp_createdAt rt\<rparr>"
    by (simp add: tbl)
  have 5: "\<forall>k row. accountResetTokens (snd (forgotPasswordVerified utf8 s tokenId rt)) k = Some row \<and>
          ar_uid row = rp_uid rt \<longrightarrow> k = hex (rp_tokenId rt)"
    unfolding tbl using deleteByUid_owner [of "rp_uid rt" ar_uid "accountResetTokens s"]
    by (auto split: if_splits)
  have 6: "accounts (snd (forgotPasswordVerified utf8 s tokenId rt)) (hex (rp_uid rt)) =
       Some (a\<lparr>emailVerified := 1, lockedAt := None\<rparr>)"
    by (simp add: eq)
  have 7: "accountUnlockCodes (snd (forgotPasswordVerified utf8 s tokenId rt)) (utf8 (rp_uid rt)) = None"
    by (simp add: eq)
  have 8: "unlockCode utf8 (snd (forgotPasswordVerified utf8 s tokenId rt)) (rp_uid rt) = Inl NotFound"
    using 7 by (simp add: unlockCode_def)
  from 1 2 3 4 5 6 7 8 show ?thesis by blast
qed

theorem forgotPasswordVerified_effects_witness:
  "accounts storeAFL (hex (rp_uid resetR)) = Some (dataA\<lparr>lockedAt := Some 3000\<rparr>) \<and>
   passwordForgotTokens storeAFL (hex tokF1) \<noteq> None \<and>
   accountUnlockCodes storeAFL (bytesAsChars uidA) \<noteq> None \<and>
   fst (forgotPasswordVerified bytesAsChars storeAFL tokF1 resetR) = Inr [(), (), (), ()] \<and>
   passwordForgotToken (snd (forgotPasswordVerified bytesAsChars storeAFL tokF1 resetR)) tokF1
     = Inl NotFound \<and>
   accountResetTokens (snd (forgotPasswordVerified bytesAsChars storeAFL tokF1 resetR)) (hex tokR)
     = Some \<lparr>ar_tokenData = [8], ar_uid = uidA, ar_createdAt = 4000\<rparr> \<and>
   accounts (snd (forgotPasswordVerified bytesAsChars storeAFL tokF1 resetR)) (hex uidA)
     = Some (dataA\<lparr>emailVerified := 1, lockedAt := None\<rparr>) \<and>
   unlockCode bytesAsChars (snd (forgotPasswordVerified bytesAsChars storeAFL tokF1 resetR)) uidA
     = Inl NotFound"
proof -
  have 1: "accounts storeAFL (hex (rp_uid resetR)) = Some (dataA\<lparr>lockedAt := Some 3000\<rparr>)"
    by (simp add: storeAFL_eq resetR_def)
  have 2: "passwordForgotTokens storeAFL (hex tokF1) \<noteq> None"
    by (simp add: storeAFL_eq storeAF_eq)
  have 3: "accountUnlockCodes storeAFL (bytesAsChars uidA) \<noteq> None"
    by (simp add: storeAFL_eq)
  from forgotPasswordVerified_effects [OF 1, of bytesAsChars tokF1] 1 2 3 show ?thesis
    by (simp add: resetR_def)
qed

subsection \<open>Deleting an account\<close>

text \<open>
  What \<open>deleteAccount\<close> does: NotFound and no change for an absent account; otherwise
  the account's row is removed, the rows of the six cascaded tables owned by the account
  are removed and all others kept, and the two indices lose one key each: the account's
  \<open>normalizedEmail\<close> and the property key of the account's \<open>openId\<close>.
\<close>

lemma deleteAccount_absent:
  "accounts s (hex uid) = None \<Longrightarrow> deleteAccount s uid = (Inl NotFound, s)"
  by (simp add: deleteAccount_def getAccountByUid_def uidFalsy_def uidHex_def)

lemma deleteAccount_present:
  assumes "accounts s (hex uid) = Some a"
  shows "deleteAccount s uid =
    (Inr [],
     s\<lparr>sessionTokens := deleteByUid (hex uid) st_uid (sessionTokens s),
       keyFetchTokens := deleteByUid (hex uid) kf_uid (keyFetchTokens s),
       accountResetTokens := deleteByUid (hex uid) ar_uid (accountResetTokens s),
       passwordChangeTokens := deleteByUid (hex uid) pc_uid (passwordChangeTokens s),
       passwordForgotTokens := deleteByUid (hex uid) pf_uid (passwordForgotTokens s),
       accountUnlockCodes := deleteByUid (hex uid) uc_uid (accountUnlockCodes s),
       uidByNormalizedEmail := (uidByNormalizedEmail s)(normalizedEmail a := None),
       uidByOpenId := (uidByOpenId s)(propertyKey (openId a) := None),
       accounts := (accounts s)(hex uid := None)\<rparr>)"
  using assms
  by (simp add: deleteAccount_def getAccountByUid_def uidFalsy_def uidHex_def cascade_def Let_def)

lemma deleteAccount_effects:
  assumes "accounts s (hex uid) = Some a"
  shows "fst (deleteAccount s uid) = Inr []"
    and "accounts (snd (deleteAccount s uid)) k = (if k = hex uid then None else accounts s k)"
    and "uidByNormalizedEmail (snd (deleteAccount s uid)) k =
           (if k = normalizedEmail a then None else uidByNormalizedEmail s k)"
    and "uidByOpenId (snd (deleteAccount s uid)) k =
           (if k = propertyKey (openId a) then None else uidByOpenId s k)"
    and "sessionTokens (snd (deleteAccount s uid)) k = Some t \<longleftrightarrow>
           sessionTokens s k = Some t \<and> st_uid t \<noteq> uid"
    and "keyFetchTokens (snd (deleteAccount s uid)) k = Some kf \<longleftrightarrow>
           keyFetchTokens s k = Some kf \<and> kf_uid kf \<noteq> uid"
    and "accountResetTokens (snd (deleteAccount s uid)) k = Some ar \<longleftrightarrow>
           accountResetTokens s k = Some ar \<and> ar_uid ar \<noteq> uid"
    and "passwordChangeTokens (snd (deleteAccount s uid)) k = Some pc \<longleftrightarrow>
           passwordChangeTokens s k = Some pc \<and> pc_uid pc \<noteq> uid"
    and "passwordForgotTokens (snd (deleteAccount s uid)) k = Some pf \<longleftrightarrow>
           passwordForgotTokens s k = Some pf \<and> pf_uid pf \<noteq> uid"
    and "accountUnlockCodes (snd (deleteAccount s uid)) k = Some uc \<longleftrightarrow>
           accountUnlockCodes s k = Some uc \<and> uc_uid uc \<noteq> uid"
  by (simp_all add: deleteAccount_present [OF assms] deleteByUid_Some)

text \<open>
  C5, at the input where the code departs from it. Account B has the \<open>openId\<close>
  \<open>''undefined''\<close>; account A has none. \<open>deleteAccount\<close> of A deletes the property
  \<open>uidByOpenId[account.openId]\<close> without the test that \<open>createAccount\<close> makes, so with
  A's \<open>openId\<close> undefined it deletes the key \<open>undefined\<close>, B's index entry: B is still
  stored, and \<open>openIdRecord\<close> no longer finds it.
\<close>

theorem deleteAccount_openId_failing_input:
  "openId dataA = None \<and> accounts storeUA (hex uidA) = Some dataA \<and>
   openId dataU = Some ''undefined'' \<and> accounts storeUA (hex uidB) = Some dataU \<and>
   uidByOpenId storeUA ''undefined'' = Some (hex uidB) \<and>
   openIdRecord storeUA ''undefined'' = Inr (dataU\<lparr>verifyHash := None\<rparr>) \<and>
   fst (deleteAccount storeUA uidA) = Inr [] \<and>
   accounts (snd (deleteAccount storeUA uidA)) (hex uidB) = Some dataU \<and>
   uidByOpenId (snd (deleteAccount storeUA uidA)) ''undefined'' = None \<and>
   openIdRecord (snd (deleteAccount storeUA uidA)) ''undefined'' = Inl NotFound"
  by (simp add: storeUA_eq deleteAccount_def getAccountByUid_def uidFalsy_def uidHex_def Let_def
      cascade_def emptyStore_def propertyKey_def openIdRecord_def indexEntry_def filterAccount_def
      hex_uid_nonempty hex_eq_iff uidA_neq_uidB)
    (simp add: dataA_def dataU_def dataB_def)

subsection \<open>The link between session tokens and devices: the invariant\<close>





subsection \<open>Operations that set no link and remove no device\<close>




















lemma refreshDevice_sessionTokenId [simp]:
  "dev_sessionTokenId (refreshDevice s d) = dev_sessionTokenId d"
  by (simp add: refreshDevice_def mirrorSessionFields_def split: option.splits)


subsection \<open>The cascade and deleting a device\<close>




subsection \<open>Creating a device\<close>



lemma mergeField_simps [simp]:
  "mergeField old None = old" "mergeField old (Some v) = Some v" "mergeField None field = field"
  by (simp_all add: mergeField_def split: option.splits)

lemma mergeField_idem [simp]: "mergeField old (mergeField old field) = mergeField old field"
  by (cases field; cases old) simp_all

lemma merged_sessionTokenId [simp]:
  "dev_sessionTokenId (mergeDeviceFields d info) =
     mergeField (dev_sessionTokenId d) (di_sessionTokenId info)"
  "dev_sessionTokenId (mirrorSessionFields d t) = dev_sessionTokenId d"
  by (simp_all add: mergeDeviceFields_def mirrorSessionFields_def)


lemma putDevice_accounts [simp]:
  "accounts (putDevice s u a deviceKey device) =
     (accounts s)(u \<mapsto> a\<lparr>devices := AList.update deviceKey device (devices a)\<rparr>)"
  "sessionTokens (putDevice s u a deviceKey device) = sessionTokens s"
  by (simp_all add: putDevice_def)


subsection \<open>Updating a device\<close>


lemma unlinkOld_accounts [simp]: "accounts (fst (unlinkOld s d info)) = accounts s"
  by (simp add: unlinkOld_def split: option.splits)







subsection \<open>Every operation keeps the invariant\<close>




subsection \<open>The two sides of a link\<close>







subsection \<open>Payload objects that the store holds\<close>

lemma updateDeviceRecord_accounts:
  "updateDeviceRecord s d info k = Inr (d', s') \<Longrightarrow> accounts s' = accounts s"
  by (auto simp: updateDeviceRecord_def Let_def split: option.splits if_splits)

text \<open>No operation changes the \<open>normalizedEmail\<close> of an account.\<close>

lemma accounts_origin:
  assumes "accounts (perform utf8 s op) k = Some a'"
  shows "(\<exists>a. accounts s k = Some a \<and> normalizedEmail a' = normalizedEmail a) \<or>
     (\<exists>uid p d. op = CreateAccount uid p \<and> payloadObject s p = Some d \<and> k = hex uid \<and>
        accounts s k = None \<and> normalizedEmail a' = normalizedEmail d \<and>
        fst (createAccount s uid p) = Inr ())"
proof (cases op)
  case (CreateAccount uid p)
  with assms show ?thesis
    by (auto simp: createAccount_def Let_def resetPayload_def payloadObject_def
        split: option.splits if_splits payload.splits)
next
  case (CreateDevice uid deviceId info)
  with assms show ?thesis
    by (auto simp: createDevice_def getAccountByUid_Buf Let_def
        dest!: updateDeviceRecord_accounts split: option.splits if_splits sum.splits)
next
  case (UpdateDevice uid deviceId info)
  with assms show ?thesis
    by (auto simp: updateDevice_def getAccountByUid_Buf Let_def split_beta
        dest!: updateDeviceRecord_accounts split: option.splits if_splits sum.splits)
next
  case (ForgotPasswordVerified tokenId rt)
  with assms show ?thesis
    by (auto simp: forgotPasswordVerified_def deletePasswordForgotToken_def
        createAccountResetToken_def verifyEmail_def unlockAccount_def getAccountByUid_Buf
        Let_def split: option.splits if_splits)
qed (use assms in \<open>auto simp: createSessionToken_def createKeyFetchToken_def
      createPasswordForgotToken_def createPasswordChangeToken_def createAccountResetToken_def
      deleteSessionToken_def deleteKeyFetchToken_def deleteAccountResetToken_def
      deletePasswordForgotToken_def deletePasswordChangeToken_def deleteDevice_def
      accountDevices_def verifyEmail_def resetAccount_def deleteAccount_def updateLocale_def
      lockAccount_def unlockAccount_def updatePasswordForgotToken_def updateSessionToken_def
      cascade_def getAccountByUid_Buf Let_def split: option.splits if_splits\<close>)

lemma indexed_perform:
  assumes ix: "indexed s" and ne: "nonEmptyId s op"
  shows "indexed (perform utf8 s op)"
  unfolding indexed_def
proof (intro allI impI)
  fix k a'
  assume a': "accounts (perform utf8 s op) k = Some a'"
  show "uidByNormalizedEmail (perform utf8 s op) (normalizedEmail a') = Some k \<and> k \<noteq> []"
  proof (cases op)
    case (CreateAccount uid p)
    from accounts_origin [OF a']
    show ?thesis
    proof
      assume "\<exists>a. accounts s k = Some a \<and> normalizedEmail a' = normalizedEmail a"
      then obtain a where a: "accounts s k = Some a" "normalizedEmail a' = normalizedEmail a"
        by blast
      with ix have i: "uidByNormalizedEmail s (normalizedEmail a') = Some k" "k \<noteq> []"
        by (auto simp: indexed_def)
      then have "truthy (uidByNormalizedEmail s (normalizedEmail a'))"
        by (simp add: truthy_def)
      then have "uidByNormalizedEmail (perform utf8 s op) (normalizedEmail a')
          = uidByNormalizedEmail s (normalizedEmail a')"
        by (rule index_kept) (simp add: CreateAccount)
      with i show ?thesis by simp
    next
      assume "\<exists>uid p d. op = CreateAccount uid p \<and> payloadObject s p = Some d \<and> k = hex uid \<and>
        accounts s k = None \<and> normalizedEmail a' = normalizedEmail d \<and>
        fst (createAccount s uid p) = Inr ()"
      then obtain uid' p' d where o: "op = CreateAccount uid' p'" "payloadObject s p' = Some d"
        "k = hex uid'" "normalizedEmail a' = normalizedEmail d"
        "fst (createAccount s uid' p') = Inr ()" by blast
      from o(5) have "createAccount s uid' p' = (Inr (), snd (createAccount s uid' p'))"
        by (metis prod.collapse)
      from createAccount_indexes [OF this o(2)] o ne show ?thesis
        by (simp add: hex_Nil_iff)
    qed
  next
    case (DeleteAccount uid)
    from accounts_origin [OF a'] DeleteAccount
    obtain a where a: "accounts s k = Some a" "normalizedEmail a' = normalizedEmail a"
      by auto
    with ix have i: "uidByNormalizedEmail s (normalizedEmail a') = Some k" "k \<noteq> []"
      by (auto simp: indexed_def)
    show ?thesis
    proof (cases "accounts s (hex uid)")
      case None
      with i DeleteAccount show ?thesis by (simp add: deleteAccount_absent)
    next
      case (Some b)
      from a' DeleteAccount have "k \<noteq> hex uid"
        by (auto simp: deleteAccount_present [OF Some])
      moreover from ix Some have "uidByNormalizedEmail s (normalizedEmail b) = Some (hex uid)"
        by (simp add: indexed_def)
      ultimately have "normalizedEmail b \<noteq> normalizedEmail a'"
        using i by auto
      with i DeleteAccount show ?thesis
        by (simp add: deleteAccount_present [OF Some])
    qed
  qed (use accounts_origin [OF a'] ix in \<open>auto simp: indexed_def\<close>)
qed

lemma indexed_emptyStore: "indexed emptyStore"
  by (simp add: indexed_def emptyStore_def)

lemma reachable_indexed: "reachable utf8 nonEmptyId s \<Longrightarrow> indexed s"
  by (induction rule: reachable.induct) (simp_all add: indexed_emptyStore indexed_perform)

text \<open>
  In a store reached with account identifiers that are not empty, a \<open>createAccount\<close>
  that is handed an object the store holds is rejected: no object comes to be stored
  under two keys.
\<close>

lemma createAccount_Held_rejected:
  assumes "reachable utf8 nonEmptyId s"
  shows "fst (createAccount s uid (Held k)) \<noteq> Inr ()"
proof (cases "accounts s k")
  case None
  then show ?thesis by (simp add: createAccount_def payloadObject_def)
next
  case (Some a)
  from reachable_indexed [OF assms] Some
  have "uidByNormalizedEmail s (normalizedEmail a) = Some k" "k \<noteq> []"
    by (auto simp: indexed_def)
  then have "truthy (uidByNormalizedEmail s (normalizedEmail a))"
    by (simp add: truthy_def)
  from createAccount_indexed [OF _ this, of "Held k" uid] Some show ?thesis
    by (simp add: payloadObject_def)
qed

subsection \<open>The stores of the examples are reachable\<close>









subsection \<open>Consistency of the link\<close>




end
